theory Spec2Isabelle
  imports Complex_Main "HOL-Library.Log_Nat"
begin

section \<open>JavaScript values and built-ins used by the handlers\<close>

text \<open>
  Exceptions are values. Every \<^verbatim>\<open>throw\<close> the modelled code can meet is one of these:
  a \<^verbatim>\<open>SyntaxError\<close> of \<^verbatim>\<open>JSON.parse\<close>, a \<^verbatim>\<open>TypeError\<close> of a property read on
  \<^verbatim>\<open>null\<close>, the error of the document client when it marshalls an \<^verbatim>\<open>undefined\<close> value,
  a rejected axios call, a rejected DynamoDB, Secrets Manager, Step Functions call.
\<close>

datatype exn =
    SyntaxError | TypeError | MarshallError | AxiosError | DynamoError | SecretsError
  | SfnError

text \<open>
  A JavaScript number is a binary64 value. A finite one is modelled by the rational it
  denotes, and an arithmetic operation by the exact operation followed by the rounding
  \<open>d64\<close> to the nearest binary64 value, a tie to the even significand: with \<open>e\<close> the
  binary exponent of the magnitude, the value is rounded to a multiple of \<open>2\<close> to the
  \<open>e - 52\<close>, and of \<open>2\<close> to the \<open>- 1074\<close> in the subnormal range. Overflow to infinity is not
  modelled. A decimal literal or a parsed JSON number \<open>q\<close> is \<open>d64 q\<close>.
\<close>

definition binaryExponent :: "rat \<Rightarrow> int" where
  "binaryExponent x =
     (let (a, b) = quotient_of x; k = bitlen a - bitlen b
      in if 2 powi k \<le> x then k else k - 1)"

definition roundHalfEven :: "rat \<Rightarrow> int" where
  "roundHalfEven t =
     (let f = \<lfloor>t\<rfloor>; r = t - of_int f
      in if r < 1 / 2 then f else if 1 / 2 < r then f + 1 else if even f then f else f + 1)"

definition d64 :: "rat \<Rightarrow> rat" where
  "d64 x =
     (if x = 0 then 0
      else let u = 2 powi (max (binaryExponent \<bar>x\<bar> - 52) (- 1074))
           in sgn x * of_int (roundHalfEven (\<bar>x\<bar> / u)) * u)"

definition dadd :: "rat \<Rightarrow> rat \<Rightarrow> rat" where
  "dadd a b = d64 (a + b)"

definition dmul :: "rat \<Rightarrow> rat \<Rightarrow> rat" where
  "dmul a b = d64 (a * b)"

definition ddiv :: "rat \<Rightarrow> rat \<Rightarrow> rat" where
  "ddiv a b = d64 (a / b)"

text \<open>
  \<^verbatim>\<open>Math.round\<close> on a binary64 value: the nearest integer, a tie towards plus infinity,
  computed on the value itself.
\<close>

definition js_round :: "rat \<Rightarrow> int" where
  "js_round x = \<lfloor>x + 1 / 2\<rfloor>"

text \<open>\<^verbatim>\<open>!key\<close> for an optional string: absent, \<^verbatim>\<open>null\<close> and the empty string are falsy.\<close>

fun falsy :: "string option \<Rightarrow> bool" where
  "falsy None = True"
| "falsy (Some s) = (s = [])"

text \<open>\<^verbatim>\<open>a ?? b\<close> on optional values.\<close>

fun orElse :: "'a option \<Rightarrow> 'a option \<Rightarrow> 'a option" where
  "orElse (Some a) _ = Some a"
| "orElse None b = b"

fun orDefault :: "'a option \<Rightarrow> 'a \<Rightarrow> 'a" where
  "orDefault (Some a) _ = a"
| "orDefault None d = d"

text \<open>
  A property of an object as the document client sees it: the key may be missing, or
  present with the value \<^verbatim>\<open>undefined\<close>, with \<^verbatim>\<open>null\<close>, or with a value. Reading a
  missing key gives \<^verbatim>\<open>undefined\<close>; \<open>orElseProp a b\<close> is \<^verbatim>\<open>a ?? b\<close> where \<open>b\<close> is read
  last and so keeps the difference between \<^verbatim>\<open>undefined\<close> and \<^verbatim>\<open>null\<close>.
\<close>

datatype 'a slot = Missing | Undefined | Null | Defined 'a

fun readProp :: "'a slot \<Rightarrow> 'a slot" where
  "readProp Missing = Undefined"
| "readProp p = p"

fun orElseProp :: "'a option \<Rightarrow> 'a slot \<Rightarrow> 'a slot" where
  "orElseProp (Some a) _ = Defined a"
| "orElseProp None b = readProp b"

text \<open>
  \<^verbatim>\<open>toUpperCase\<close> and \<^verbatim>\<open>toLowerCase\<close> on the ASCII letters; other characters are left
  as they are.
\<close>

definition toUpperChar :: "char \<Rightarrow> char" where
  "toUpperChar c =
     (case map_of (zip ''abcdefghijklmnopqrstuvwxyz'' ''ABCDEFGHIJKLMNOPQRSTUVWXYZ'') c of
        Some u \<Rightarrow> u | None \<Rightarrow> c)"

definition toLowerChar :: "char \<Rightarrow> char" where
  "toLowerChar c =
     (case map_of (zip ''ABCDEFGHIJKLMNOPQRSTUVWXYZ'' ''abcdefghijklmnopqrstuvwxyz'') c of
        Some l \<Rightarrow> l | None \<Rightarrow> c)"

definition toUpperCase :: "string \<Rightarrow> string" where
  "toUpperCase s = map toUpperChar s"

definition toLowerCase :: "string \<Rightarrow> string" where
  "toLowerCase s = map toLowerChar s"

text \<open>Decimal rendering of a natural number, as template literals render an index.\<close>

fun showNat :: "nat \<Rightarrow> string" where
  "showNat n =
     (if n < 10 then [''0123456789'' ! n]
      else showNat (n div 10) @ [''0123456789'' ! (n mod 10)])"

declare showNat.simps [simp del]

text \<open>
  \<^verbatim>\<open>x.toFixed(0)\<close>: the nearest integer in decimal, a tie away from zero, the sign kept
  apart (values of \<^verbatim>\<open>1e21\<close> and more, which print in exponent form, do not arise from a
  confidence).
\<close>

definition toFixed0 :: "rat \<Rightarrow> string" where
  "toFixed0 x =
     (if x < 0 then ''-'' @ showNat (nat \<lfloor>- x + 1 / 2\<rfloor>) else showNat (nat \<lfloor>x + 1 / 2\<rfloor>))"

text \<open>\<^verbatim>\<open>s.split(c)\<close> for a one-character separator.\<close>

fun splitOn :: "char \<Rightarrow> string \<Rightarrow> string list" where
  "splitOn c [] = [[]]"
| "splitOn c (x # xs) =
     (if x = c then [] # splitOn c xs
      else (case splitOn c xs of w # ws \<Rightarrow> (x # w) # ws | [] \<Rightarrow> [[x]]))"

text \<open>\<^verbatim>\<open>hay.includes(needle)\<close>: the needle occurs as a contiguous run.\<close>

fun startsWith :: "string \<Rightarrow> string \<Rightarrow> bool" where
  "startsWith _ [] = True"
| "startsWith [] (_ # _) = False"
| "startsWith (h # hs) (n # ns) = (h = n \<and> startsWith hs ns)"

fun includesStr :: "string \<Rightarrow> string \<Rightarrow> bool" where
  "includesStr [] needle = (needle = [])"
| "includesStr (h # hs) needle = (startsWith (h # hs) needle \<or> includesStr hs needle)"

section \<open>Shared shapes: secrets, provider responses, the content cache\<close>

text \<open>The credential bundle (\<^verbatim>\<open>SecretBundle\<close>); only the three provider keys are read.\<close>

record SecretBundle =
  perplexityApiKey :: "string option"
  geminiApiKey :: "string option"
  chatGptApiKey :: "string option"

definition noSecrets :: SecretBundle where
  "noSecrets = \<lparr>perplexityApiKey = None, geminiApiKey = None, chatGptApiKey = None\<rparr>"

text \<open>
  A raw provider item is \<^verbatim>\<open>any\<close> in the source. The model keeps the properties the
  handlers read, each optional (\<open>None\<close> is \<^verbatim>\<open>undefined\<close> or \<^verbatim>\<open>null\<close>); \<^verbatim>\<open>url\<close> and
  \<^verbatim>\<open>filingDate\<close>, which are read last in their \<^verbatim>\<open>??\<close> chains, keep the difference.
  Array elements are taken to be objects, and a confidence to be a finite number.
\<close>

record raw_item =
  r_id :: "string option"
  r_title :: "string option"
  r_summary :: "string option"
  r_content :: "string option"
  r_abstract :: "string option"
  r_source_url :: "string option"
  r_url :: "string slot"
  r_published_at :: "string option"
  r_publishedAt :: "string option"
  r_filingDate :: "string slot"
  r_inventors :: "string list option"
  r_confidence :: "rat option"
  r_message_content :: "string option"

definition emptyRaw :: raw_item where
  "emptyRaw = \<lparr>r_id = None, r_title = None, r_summary = None, r_content = None,
     r_abstract = None, r_source_url = None, r_url = Missing, r_published_at = None,
     r_publishedAt = None, r_filingDate = Missing, r_inventors = None, r_confidence = None,
     r_message_content = None\<rparr>"

text \<open>
  An axios call either rejects (network failure, non-2xx status) or resolves with
  \<^verbatim>\<open>response.data\<close>, which may itself be absent.
\<close>

datatype 'a http = HttpFailure | HttpOk "'a option"

record perplexity_data =
  pd_confidence :: "rat option"
  pd_results :: "raw_item list option"

record gemini_data =
  gd_candidates :: "raw_item list option"

record chatgpt_data =
  cd_choices :: "raw_item list option"

text \<open>
  \<^verbatim>\<open>AggregationRequest\<close> and \<^verbatim>\<open>PatentRequest\<close> are the same shape. Its first field
  is \<^verbatim>\<open>section\<close> in the source.
\<close>

record AggregationRequest =
  rq_section :: string
  timePeriod :: string
  mode :: "string option"

record AiContentItem =
  ai_id :: string
  ai_title :: string
  ai_summary :: string
  ai_sourceUrl :: "string slot"
  verificationScore :: int
  publishedAt :: "string option"

record AggregatedResponse =
  resp_section :: string
  resp_timePeriod :: string
  resp_items :: "AiContentItem list"
  verificationSummary :: string
  generatedAt :: string

record PatentSummary =
  pt_id :: string
  pt_title :: string
  abstract :: string
  filingDate :: "string slot"
  inventors :: "string list option"
  impactScore :: int
  pt_sourceUrl :: "string slot"

record PatentResponse =
  pr_section :: string
  pr_timePeriod :: string
  patents :: "PatentSummary list"
  pr_generatedAt :: string

text \<open>
  One item of the content-cache table, keyed by \<^verbatim>\<open>sectionPeriod\<close>. An
  \<^verbatim>\<open>UpdateCommand\<close> with a \<^verbatim>\<open>SET\<close> expression creates the item when it is absent and
  overwrites exactly the attributes it names.
\<close>

record cache_record =
  newsArray :: "AiContentItem list option"
  patentsArray :: "PatentSummary list option"
  verifiedAt :: "string option"
  expiresAt :: "int option"
  cachedVerificationScore :: "int option"
  patentImpactAverage :: "int option"

definition emptyRecord :: cache_record where
  "emptyRecord = \<lparr>newsArray = None, patentsArray = None, verifiedAt = None,
     expiresAt = None, cachedVerificationScore = None, patentImpactAverage = None\<rparr>"

text \<open>
  Both modules build their client with \<^verbatim>\<open>DynamoDBDocumentClient.from(new DynamoDBClient({}))\<close>,
  that is, without \<^verbatim>\<open>removeUndefinedValues\<close>: marshalling an item that has a key whose
  value is \<^verbatim>\<open>undefined\<close> throws before anything is sent. The other properties of the
  items are always defined where their key is present.
\<close>

definition newsMarshallable :: "AiContentItem \<Rightarrow> bool" where
  "newsMarshallable i = (ai_sourceUrl i \<noteq> Undefined)"

definition patentMarshallable :: "PatentSummary \<Rightarrow> bool" where
  "patentMarshallable p = (filingDate p \<noteq> Undefined \<and> pt_sourceUrl p \<noteq> Undefined)"

text \<open>
  What lies outside a Lambda module: the secret's ARN from the environment, the outcome
  of fetching and parsing the secret, the answer of each provider to a query under a
  key, whether the service accepts an \<^verbatim>\<open>UpdateCommand\<close> on the content cache once it is
  marshalled, the clock (one reading for an invocation), and the generator behind
  \<^verbatim>\<open>uuid()\<close>, indexed by the number of identifiers drawn before.
\<close>

record world =
  secretArn :: string
  secretFetch :: "exn + SecretBundle"
  postPerplexity :: "string \<Rightarrow> string \<Rightarrow> perplexity_data http"
  postGemini :: "string \<Rightarrow> string \<Rightarrow> gemini_data http"
  postChatGpt :: "string \<Rightarrow> string \<Rightarrow> chatgpt_data http"
  cacheWriteOk :: bool
  nowIso :: string
  nowMillis :: int
  uuidv4 :: "nat \<Rightarrow> string"

text \<open>
  What a module mutates: the memoised secrets, the number of identifiers drawn so far,
  and the content-cache table.
\<close>

record lambda_state =
  cachedSecrets :: "SecretBundle option"
  uuidCount :: nat
  cacheTable :: "string \<rightharpoonup> cache_record"

definition uuid :: "world \<Rightarrow> lambda_state \<Rightarrow> string \<times> lambda_state" where
  "uuid w st = (uuidv4 w (uuidCount st), st\<lparr>uuidCount := Suc (uuidCount st)\<rparr>)"

text \<open>
  \<^verbatim>\<open>resolveSecrets\<close> (fetchNews) and \<^verbatim>\<open>loadSecrets\<close> (fetchPatents) are the same
  function: the memo if set, the empty bundle if no secret is configured, otherwise the
  fetched and parsed secret (\<open>secretFetch\<close> is the outcome of the call and the parse,
  the empty bundle when the secret has no string).
\<close>

definition resolveSecrets :: "world \<Rightarrow> lambda_state \<Rightarrow> (exn + SecretBundle) \<times> lambda_state" where
  "resolveSecrets w st =
     (case cachedSecrets st of
        Some b \<Rightarrow> (Inr b, st)
      | None \<Rightarrow>
          if secretArn w = [] then (Inr noSecrets, st\<lparr>cachedSecrets := Some noSecrets\<rparr>)
          else (case secretFetch w of
                  Inl e \<Rightarrow> (Inl e, st)
                | Inr b \<Rightarrow> (Inr b, st\<lparr>cachedSecrets := Some b\<rparr>)))"

section \<open>fetchNews: the news aggregation handler\<close>

text \<open>
  The event of the handler: an API Gateway event (it has \<^verbatim>\<open>requestContext\<close>) or a
  direct invocation carrying the request fields. The body of an API event is classified
  by what \<^verbatim>\<open>event.body ? JSON.parse(event.body) : {}\<close> does with it: absent or empty, a
  text \<^verbatim>\<open>JSON.parse\<close> rejects, the text \<^verbatim>\<open>null\<close> (reading a property of the result
  throws), or any other value, of which only the properties \<^verbatim>\<open>section\<close> and
  \<^verbatim>\<open>timePeriod\<close> are read. Where these two are present they are taken to be strings,
  as the interface \<^verbatim>\<open>AggregationRequest\<close> declares them; a body that carries a number
  there is outside the model.
\<close>

datatype api_body =
    NoBody
  | Unparseable
  | ParsedNull
  | ParsedObject "string option" "string option"

datatype event =
    ApiGatewayEvent api_body "string option" "string option"
  | DirectEvent "string option" "string option" "string option"

fun isApiGatewayEvent :: "event \<Rightarrow> bool" where
  "isApiGatewayEvent (ApiGatewayEvent _ _ _) = True"
| "isApiGatewayEvent (DirectEvent _ _ _) = False"

text \<open>
  \<^verbatim>\<open>parseRequest\<close>. The arguments of \<open>ApiGatewayEvent\<close> are the body and
  \<^verbatim>\<open>queryStringParameters?.section\<close>, \<^verbatim>\<open>queryStringParameters?.timePeriod\<close>; those of
  \<open>DirectEvent\<close> are \<^verbatim>\<open>event.section\<close>, \<^verbatim>\<open>event.timePeriod\<close>, \<^verbatim>\<open>event.mode\<close>.
\<close>

fun parseRequest :: "event \<Rightarrow> exn + AggregationRequest" where
  "parseRequest (ApiGatewayEvent NoBody qs qt) =
     Inr \<lparr>rq_section = orDefault qs ''ai'', timePeriod = orDefault qt ''daily'',
          mode = Some ''api''\<rparr>"
| "parseRequest (ApiGatewayEvent Unparseable qs qt) = Inl SyntaxError"
| "parseRequest (ApiGatewayEvent ParsedNull qs qt) = Inl TypeError"
| "parseRequest (ApiGatewayEvent (ParsedObject bs bt) qs qt) =
     Inr \<lparr>rq_section = orDefault (orElse bs qs) ''ai'',
          timePeriod = orDefault (orElse bt qt) ''daily'', mode = Some ''api''\<rparr>"
| "parseRequest (DirectEvent es et em) =
     Inr \<lparr>rq_section = orDefault es ''ai'', timePeriod = orDefault et ''daily'', mode = em\<rparr>"

text \<open>The result of a provider call: \<^verbatim>\<open>{provider, confidence, items}\<close>.\<close>

record AiResult =
  provider :: string
  confidence :: rat
  items :: "raw_item list"

text \<open>
  The three provider adapters. Each returns \<^verbatim>\<open>null\<close> (\<open>Inr None\<close>) without a key, rethrows
  a failed call (\<open>Inl\<close>), and otherwise returns its result.
\<close>

definition callPerplexity :: "world \<Rightarrow> string \<Rightarrow> string option \<Rightarrow> exn + AiResult option" where
  "callPerplexity w query key =
     (if falsy key then Inr None
      else (case postPerplexity w query (the key) of
              HttpFailure \<Rightarrow> Inl AxiosError
            | HttpOk d \<Rightarrow>
                Inr (Some \<lparr>provider = ''perplexity'',
                  confidence = orDefault (Option.bind d pd_confidence) 0,
                  items = orDefault (Option.bind d pd_results) []\<rparr>)))"

definition callGemini :: "world \<Rightarrow> string \<Rightarrow> string option \<Rightarrow> exn + AiResult option" where
  "callGemini w query key =
     (if falsy key then Inr None
      else (case postGemini w query (the key) of
              HttpFailure \<Rightarrow> Inl AxiosError
            | HttpOk d \<Rightarrow>
                Inr (Some \<lparr>provider = ''gemini'', confidence = d64 (7 / 10),
                  items = orDefault (Option.bind d gd_candidates) []\<rparr>)))"

definition callChatGpt :: "world \<Rightarrow> string \<Rightarrow> string option \<Rightarrow> exn + AiResult option" where
  "callChatGpt w query key =
     (if falsy key then Inr None
      else (case postChatGpt w query (the key) of
              HttpFailure \<Rightarrow> Inl AxiosError
            | HttpOk d \<Rightarrow>
                Inr (Some \<lparr>provider = ''chatgpt'', confidence = d64 (6 / 10),
                  items = orDefault (Option.bind d cd_choices) []\<rparr>)))"

text \<open>\<^verbatim>\<open>try { aiResult = await call(...) } catch { }\<close>: a thrown call leaves \<^verbatim>\<open>null\<close>.\<close>

fun caught :: "exn + AiResult option \<Rightarrow> AiResult option" where
  "caught (Inl _) = None"
| "caught (Inr r) = r"

text \<open>
  The cascade of \<^verbatim>\<open>aggregateContent\<close>: Perplexity, then Gemini \<^verbatim>\<open>if (!aiResult)\<close>, then
  ChatGPT \<^verbatim>\<open>if (!aiResult)\<close>. The test is on the result object, not on its items.
\<close>

definition cascade :: "world \<Rightarrow> SecretBundle \<Rightarrow> string \<Rightarrow> AiResult option" where
  "cascade w secrets query =
     (let r1 = caught (callPerplexity w query (perplexityApiKey secrets));
          r2 = (case r1 of Some r \<Rightarrow> Some r
                | None \<Rightarrow> caught (callGemini w query (geminiApiKey secrets)));
          r3 = (case r2 of Some r \<Rightarrow> Some r
                | None \<Rightarrow> caught (callChatGpt w query (chatGptApiKey secrets)))
      in r3)"

definition newsQuery :: "AggregationRequest \<Rightarrow> string" where
  "newsQuery request =
     ''Top verified '' @ rq_section request @ '' technology news for '' @ timePeriod request"

text \<open>\<^verbatim>\<open>item.source?.url ?? item.url\<close>, in both aggregation modules.\<close>

definition sourceUrlOf :: "raw_item \<Rightarrow> string slot" where
  "sourceUrlOf item = orElseProp (r_source_url item) (r_url item)"

text \<open>
  The mapping of one raw item to an \<^verbatim>\<open>AiContentItem\<close>; \<^verbatim>\<open>uuid()\<close> is drawn only when
  the item has no id. The key \<^verbatim>\<open>sourceUrl\<close> is always written, with \<^verbatim>\<open>undefined\<close> when
  the item has no url.
\<close>

definition canonical :: "world \<Rightarrow> AggregationRequest \<Rightarrow> AiResult option \<Rightarrow> raw_item
    \<Rightarrow> lambda_state \<Rightarrow> AiContentItem \<times> lambda_state" where
  "canonical w request aiResult item st =
     (let (i, st') = (case r_id item of Some i \<Rightarrow> (i, st) | None \<Rightarrow> uuid w st)
      in (\<lparr>ai_id = i,
            ai_title = orDefault (orElse (r_title item) (r_summary item))
                         (''Update for '' @ rq_section request),
            ai_summary = orDefault (orElse (r_summary item) (r_content item))
                         (''Automated insight regarding '' @ rq_section request
                            @ '' developments for '' @ timePeriod request @ ''.''),
            ai_sourceUrl = sourceUrlOf item,
            verificationScore =
              js_round (dmul (orDefault (map_option confidence aiResult) (d64 (6 / 10))) 100),
            publishedAt =
              Some (orDefault (orElse (r_published_at item) (r_publishedAt item)) (nowIso w))\<rparr>,
          st'))"

fun canonicalAll :: "world \<Rightarrow> AggregationRequest \<Rightarrow> AiResult option \<Rightarrow> raw_item list
    \<Rightarrow> lambda_state \<Rightarrow> AiContentItem list \<times> lambda_state" where
  "canonicalAll w request aiResult [] st = ([], st)"
| "canonicalAll w request aiResult (item # rest) st =
     (let (c, st') = canonical w request aiResult item st;
          (cs, st'') = canonicalAll w request aiResult rest st'
      in (c # cs, st''))"

text \<open>
  \<^verbatim>\<open>buildPlaceholderItems\<close>: three items, indices 0, 1, 2, each with a fresh id and
  without the key \<^verbatim>\<open>sourceUrl\<close>.
\<close>

definition placeholderItem :: "world \<Rightarrow> string \<Rightarrow> string \<Rightarrow> nat \<Rightarrow> lambda_state
    \<Rightarrow> AiContentItem \<times> lambda_state" where
  "placeholderItem w sec period index st =
     (let (i, st') = uuid w st
      in (\<lparr>ai_id = i,
            ai_title = toUpperCase sec @ '' insight '' @ showNat (index + 1)
                         @ '' ('' @ period @ '')'',
            ai_summary = ''Placeholder content for '' @ sec @ '' during '' @ period
                         @ ''. Replace with real aggregation when API keys are configured.'',
            ai_sourceUrl = Missing,
            verificationScore = 50,
            publishedAt = Some (nowIso w)\<rparr>,
          st'))"

fun placeholderItems :: "world \<Rightarrow> string \<Rightarrow> string \<Rightarrow> nat list \<Rightarrow> lambda_state
    \<Rightarrow> AiContentItem list \<times> lambda_state" where
  "placeholderItems w sec period [] st = ([], st)"
| "placeholderItems w sec period (index # rest) st =
     (let (p, st') = placeholderItem w sec period index st;
          (ps, st'') = placeholderItems w sec period rest st'
      in (p # ps, st''))"

definition buildPlaceholderItems :: "world \<Rightarrow> string \<Rightarrow> string \<Rightarrow> lambda_state
    \<Rightarrow> AiContentItem list \<times> lambda_state" where
  "buildPlaceholderItems w sec period st = placeholderItems w sec period [0, 1, 2] st"

text \<open>
  The \<^verbatim>\<open>UpdateCommand\<close> of \<^verbatim>\<open>aggregateContent\<close> on the table: it sets \<^verbatim>\<open>newsArray\<close>,
  \<^verbatim>\<open>verifiedAt\<close>, \<^verbatim>\<open>expiresAt\<close> and \<^verbatim>\<open>verificationScore\<close> of the item at the key and
  leaves its other attributes as they are.
\<close>

definition setNews :: "string \<Rightarrow> AiContentItem list \<Rightarrow> string \<Rightarrow> int \<Rightarrow> int
    \<Rightarrow> (string \<rightharpoonup> cache_record) \<Rightarrow> (string \<rightharpoonup> cache_record)" where
  "setNews key news stamp ttl score tbl =
     tbl(key \<mapsto> (orDefault (tbl key) emptyRecord)
       \<lparr>newsArray := Some news, verifiedAt := Some stamp, expiresAt := Some ttl,
        cachedVerificationScore := Some score\<rparr>)"

definition cacheKey :: "AggregationRequest \<Rightarrow> string" where
  "cacheKey request = rq_section request @ ''#'' @ timePeriod request"

definition expiry :: "world \<Rightarrow> int" where
  "expiry w = nowMillis w div 1000 + 60 * 60 * 24"

definition summaryText :: "AiResult option \<Rightarrow> string" where
  "summaryText aiResult =
     (case aiResult of
        Some r \<Rightarrow>
          if provider r \<noteq> [] then
            ''Content verified via '' @ provider r @ '' with confidence ''
              @ toFixed0 (dmul (confidence r) 100) @ ''%.''
          else ''Placeholder content generated because AI providers were unavailable.''
      | None \<Rightarrow> ''Placeholder content generated because AI providers were unavailable.'')"

text \<open>
  \<^verbatim>\<open>aggregateContent\<close>: secrets, cascade, canonicalisation of at most ten items,
  placeholders when that list is empty, the cache write, the response. A failing secret
  fetch throws, and so does the cache write when the items do not marshall or the
  service rejects the command.
\<close>

definition aggregateContent :: "world \<Rightarrow> AggregationRequest \<Rightarrow> lambda_state
    \<Rightarrow> (exn + AggregatedResponse) \<times> lambda_state" where
  "aggregateContent w request st0 =
     (case resolveSecrets w st0 of
        (Inl e, st1) \<Rightarrow> (Inl e, st1)
      | (Inr secrets, st1) \<Rightarrow>
          (let aiResult = cascade w secrets (newsQuery request);
               stamp = nowIso w;
               (mapped, st2) =
                 canonicalAll w request aiResult
                   (take 10 (orDefault (map_option items aiResult) [])) st1;
               (enrichedItems, st3) =
                 (if length mapped > 0 then (mapped, st2)
                  else buildPlaceholderItems w (rq_section request) (timePeriod request) st2)
           in if \<not> list_all newsMarshallable enrichedItems then (Inl MarshallError, st3)
              else if \<not> cacheWriteOk w then (Inl DynamoError, st3)
              else
                (Inr \<lparr>resp_section = rq_section request,
                      resp_timePeriod = timePeriod request,
                      resp_items = enrichedItems,
                      verificationSummary = summaryText aiResult,
                      generatedAt = stamp\<rparr>,
                 st3\<lparr>cacheTable :=
                   setNews (cacheKey request) enrichedItems stamp (expiry w)
                     (js_round
                        (dmul (orDefault (map_option confidence aiResult) (d64 (5 / 10))) 100))
                     (cacheTable st3)\<rparr>)))"

text \<open>What a handler hands back through API Gateway.\<close>

datatype 'a response_body = Payload 'a | Message string

record 'a api_result =
  statusCode :: nat
  headers :: "(string \<times> string) list"
  body :: "'a response_body"

definition jsonHeaders :: "(string \<times> string) list" where
  "jsonHeaders = [(''Content-Type'', ''application/json''), (''Access-Control-Allow-Origin'', ''*'')]"

text \<open>
  \<^verbatim>\<open>handleApiGateway\<close>: the parse and the aggregation run inside one \<^verbatim>\<open>try\<close>; whatever
  they throw becomes the 500 response.
\<close>

definition handleApiGateway :: "world \<Rightarrow> event \<Rightarrow> lambda_state
    \<Rightarrow> AggregatedResponse api_result \<times> lambda_state" where
  "handleApiGateway w ev st =
     (let failed = \<lparr>statusCode = 500, headers = jsonHeaders,
                     body = Message ''Failed to aggregate news content''\<rparr>
      in case parseRequest ev of
           Inl e \<Rightarrow> (failed, st)
         | Inr request \<Rightarrow>
             (case aggregateContent w request st of
                (Inl e, st') \<Rightarrow> (failed, st')
              | (Inr result, st') \<Rightarrow>
                  (\<lparr>statusCode = 200, headers = jsonHeaders, body = Payload result\<rparr>, st')))"

text \<open>
  The exported \<^verbatim>\<open>handler\<close> of fetchNews. A direct invocation returns the aggregated
  response itself, and what it throws fails the invocation.
\<close>

datatype ('a, 'b) handler_result = Api 'a | Direct 'b | Thrown exn

definition fetchNews_handler :: "world \<Rightarrow> event \<Rightarrow> lambda_state
    \<Rightarrow> (AggregatedResponse api_result, AggregatedResponse) handler_result \<times> lambda_state" where
  "fetchNews_handler w ev st =
     (if isApiGatewayEvent ev then
        (case handleApiGateway w ev st of (r, st') \<Rightarrow> (Api r, st'))
      else
        (case parseRequest ev of
           Inl e \<Rightarrow> (Thrown e, st)
         | Inr normalized \<Rightarrow>
             (case aggregateContent w normalized st of
                (Inl e, st') \<Rightarrow> (Thrown e, st')
              | (Inr result, st') \<Rightarrow> (Direct result, st'))))"

section \<open>fetchPatents: the patent aggregation handler\<close>

text \<open>\<^verbatim>\<open>normalizeRequest\<close>: as \<^verbatim>\<open>parseRequest\<close> of fetchNews, with its own period default.\<close>

fun normalizeRequest :: "event \<Rightarrow> exn + AggregationRequest" where
  "normalizeRequest (ApiGatewayEvent NoBody qs qt) =
     Inr \<lparr>rq_section = orDefault qs ''ai'', timePeriod = orDefault qt ''monthly'',
          mode = Some ''api''\<rparr>"
| "normalizeRequest (ApiGatewayEvent Unparseable qs qt) = Inl SyntaxError"
| "normalizeRequest (ApiGatewayEvent ParsedNull qs qt) = Inl TypeError"
| "normalizeRequest (ApiGatewayEvent (ParsedObject bs bt) qs qt) =
     Inr \<lparr>rq_section = orDefault (orElse bs qs) ''ai'',
          timePeriod = orDefault (orElse bt qt) ''monthly'', mode = Some ''api''\<rparr>"
| "normalizeRequest (DirectEvent es et em) =
     Inr \<lparr>rq_section = orDefault es ''ai'', timePeriod = orDefault et ''monthly'', mode = em\<rparr>"

definition patentQuery :: "AggregationRequest \<Rightarrow> string" where
  "patentQuery request =
     ''Summarize the most impactful patents related to '' @ rq_section request
       @ '' filed within '' @ timePeriod request"

text \<open>
  One Perplexity result pushed as a \<^verbatim>\<open>PatentSummary\<close>; the keys \<^verbatim>\<open>filingDate\<close> and
  \<^verbatim>\<open>sourceUrl\<close> are always written.
\<close>

definition patentOfRaw :: "world \<Rightarrow> AggregationRequest \<Rightarrow> raw_item \<Rightarrow> lambda_state
    \<Rightarrow> PatentSummary \<times> lambda_state" where
  "patentOfRaw w request patent st =
     (let (i, st') = (case r_id patent of Some i \<Rightarrow> (i, st) | None \<Rightarrow> uuid w st)
      in (\<lparr>pt_id = i,
            pt_title = orDefault (r_title patent) (''Patent insight for '' @ rq_section request),
            abstract = orDefault (orElse (r_summary patent) (r_abstract patent))
                         (''Placeholder summary for a '' @ rq_section request
                            @ '' patent during '' @ timePeriod request @ ''.''),
            filingDate = orElseProp (r_published_at patent) (r_filingDate patent),
            inventors = Some (orDefault (r_inventors patent) []),
            impactScore =
              js_round (dmul (orDefault (r_confidence patent) (d64 (6 / 10))) 100),
            pt_sourceUrl = sourceUrlOf patent\<rparr>,
          st'))"

fun patentsOfRaw :: "world \<Rightarrow> AggregationRequest \<Rightarrow> raw_item list \<Rightarrow> lambda_state
    \<Rightarrow> PatentSummary list \<times> lambda_state" where
  "patentsOfRaw w request [] st = ([], st)"
| "patentsOfRaw w request (patent # rest) st =
     (let (p, st') = patentOfRaw w request patent st;
          (ps, st'') = patentsOfRaw w request rest st'
      in (p # ps, st''))"

text \<open>
  One line of the ChatGPT answer pushed as a \<^verbatim>\<open>PatentSummary\<close>, without the keys
  \<^verbatim>\<open>filingDate\<close>, \<^verbatim>\<open>inventors\<close> and \<^verbatim>\<open>sourceUrl\<close>.
\<close>

definition patentOfLine :: "world \<Rightarrow> string \<Rightarrow> nat \<Rightarrow> lambda_state
    \<Rightarrow> PatentSummary \<times> lambda_state" where
  "patentOfLine w line index st =
     (let (i, st') = uuid w st
      in (\<lparr>pt_id = i,
            pt_title = (case splitOn (CHR '':'') line of
                          h # _ \<Rightarrow> h
                        | [] \<Rightarrow> ''Patent '' @ showNat (index + 1)),
            abstract = line,
            filingDate = Missing,
            inventors = None,
            impactScore = 60,
            pt_sourceUrl = Missing\<rparr>,
          st'))"

fun patentsOfLines :: "world \<Rightarrow> string list \<Rightarrow> nat \<Rightarrow> lambda_state
    \<Rightarrow> PatentSummary list \<times> lambda_state" where
  "patentsOfLines w [] index st = ([], st)"
| "patentsOfLines w (line # rest) index st =
     (let (p, st') = patentOfLine w line index st;
          (ps, st'') = patentsOfLines w rest (Suc index) st'
      in (p # ps, st''))"

definition patentPlaceholder :: "world \<Rightarrow> AggregationRequest \<Rightarrow> nat \<Rightarrow> lambda_state
    \<Rightarrow> PatentSummary \<times> lambda_state" where
  "patentPlaceholder w request index st =
     (let (i, st') = uuid w st
      in (\<lparr>pt_id = i,
            pt_title = toUpperCase (rq_section request) @ '' patent highlight ''
                         @ showNat (index + 1),
            abstract = ''Placeholder patent highlight for '' @ rq_section request @ '' (''
                         @ timePeriod request @ ''). Configure API keys to replace this data.'',
            filingDate = Missing,
            inventors = None,
            impactScore = 55,
            pt_sourceUrl = Missing\<rparr>,
          st'))"

fun patentPlaceholders :: "world \<Rightarrow> AggregationRequest \<Rightarrow> nat list \<Rightarrow> lambda_state
    \<Rightarrow> PatentSummary list \<times> lambda_state" where
  "patentPlaceholders w request [] st = ([], st)"
| "patentPlaceholders w request (index # rest) st =
     (let (p, st') = patentPlaceholder w request index st;
          (ps, st'') = patentPlaceholders w request rest st'
      in (p # ps, st''))"

text \<open>
  The first step of \<^verbatim>\<open>generatePatentSummaries\<close>: the Perplexity lookup, inside
  \<^verbatim>\<open>try\<close>/\<^verbatim>\<open>catch\<close>, so a failed call leaves the list empty.
\<close>

definition perplexityPatents :: "world \<Rightarrow> AggregationRequest \<Rightarrow> SecretBundle \<Rightarrow> lambda_state
    \<Rightarrow> PatentSummary list \<times> lambda_state" where
  "perplexityPatents w request secrets st =
     (if falsy (perplexityApiKey secrets) then ([], st)
      else (case postPerplexity w (patentQuery request) (the (perplexityApiKey secrets)) of
              HttpFailure \<Rightarrow> ([], st)
            | HttpOk d \<Rightarrow>
                patentsOfRaw w request (orDefault (Option.bind d pd_results) []) st))"

text \<open>\<^verbatim>\<open>response.data?.choices?.[0]?.message?.content ?? ''\<close>.\<close>

definition firstChoiceText :: "chatgpt_data option \<Rightarrow> string" where
  "firstChoiceText d =
     (case Option.bind d cd_choices of
        Some (choice # _) \<Rightarrow> orDefault (r_message_content choice) []
      | _ \<Rightarrow> [])"

text \<open>
  The second step: the ChatGPT call when the list is still empty. The call stands outside
  any \<^verbatim>\<open>try\<close>, so its failure is thrown out of \<^verbatim>\<open>generatePatentSummaries\<close>.
\<close>

definition chatGptPatents :: "world \<Rightarrow> AggregationRequest \<Rightarrow> SecretBundle
    \<Rightarrow> PatentSummary list \<Rightarrow> lambda_state \<Rightarrow> (exn + PatentSummary list) \<times> lambda_state" where
  "chatGptPatents w request secrets found st =
     (if length found = 0 \<and> \<not> falsy (chatGptApiKey secrets) then
        (case postChatGpt w (patentQuery request) (the (chatGptApiKey secrets)) of
           HttpFailure \<Rightarrow> (Inl AxiosError, st)
         | HttpOk d \<Rightarrow>
             (let text = firstChoiceText d
              in if text \<noteq> [] then
                   (case patentsOfLines w
                           (take 5 (filter (\<lambda>l. l \<noteq> []) (splitOn (CHR 0x0A) text))) 0 st of
                      (ps, st') \<Rightarrow> (Inr (found @ ps), st'))
                 else (Inr found, st)))
      else (Inr found, st))"

definition generatePatentSummaries :: "world \<Rightarrow> AggregationRequest \<Rightarrow> lambda_state
    \<Rightarrow> (exn + PatentSummary list) \<times> lambda_state" where
  "generatePatentSummaries w request st0 =
     (case resolveSecrets w st0 of
        (Inl e, st1) \<Rightarrow> (Inl e, st1)
      | (Inr secrets, st1) \<Rightarrow>
          (case perplexityPatents w request secrets st1 of
             (found, st2) \<Rightarrow>
               (case chatGptPatents w request secrets found st2 of
                  (Inl e, st3) \<Rightarrow> (Inl e, st3)
                | (Inr found', st3) \<Rightarrow>
                    if length found' = 0 then
                      (case patentPlaceholders w request [0, 1, 2] st3 of
                         (ps, st4) \<Rightarrow> (Inr ps, st4))
                    else (Inr (take 10 found'), st3))))"

text \<open>
  \<^verbatim>\<open>upsertCache\<close>: one \<^verbatim>\<open>UpdateCommand\<close> that sets \<^verbatim>\<open>patentsArray\<close>, \<^verbatim>\<open>verifiedAt\<close>,
  \<^verbatim>\<open>expiresAt\<close> and \<^verbatim>\<open>patentImpactAverage\<close>; the average is
  \<^verbatim>\<open>Math.round(sum / Math.max(1, patents.length))\<close>, the sum and the quotient in
  binary64. The write throws when a patent does not marshall or the service rejects the
  command.
\<close>

definition impactAverage :: "PatentSummary list \<Rightarrow> int" where
  "impactAverage ps =
     js_round (ddiv (foldl (\<lambda>acc item. dadd acc (of_int (impactScore item))) 0 ps)
                 (of_nat (max 1 (length ps))))"

definition setPatents :: "string \<Rightarrow> PatentSummary list \<Rightarrow> string \<Rightarrow> int \<Rightarrow> int
    \<Rightarrow> (string \<rightharpoonup> cache_record) \<Rightarrow> (string \<rightharpoonup> cache_record)" where
  "setPatents key ps stamp ttl impact tbl =
     tbl(key \<mapsto> (orDefault (tbl key) emptyRecord)
       \<lparr>patentsArray := Some ps, verifiedAt := Some stamp, expiresAt := Some ttl,
        patentImpactAverage := Some impact\<rparr>)"

definition upsertCache :: "world \<Rightarrow> AggregationRequest \<Rightarrow> PatentSummary list \<Rightarrow> lambda_state
    \<Rightarrow> (exn + unit) \<times> lambda_state" where
  "upsertCache w request ps st =
     (if \<not> list_all patentMarshallable ps then (Inl MarshallError, st)
      else if \<not> cacheWriteOk w then (Inl DynamoError, st)
      else (Inr (),
            st\<lparr>cacheTable :=
              setPatents (cacheKey request) ps (nowIso w) (expiry w) (impactAverage ps)
                (cacheTable st)\<rparr>))"

text \<open>The body of the direct branch of the exported handler, shared with \<^verbatim>\<open>handleApi\<close>.\<close>

definition patentPipeline :: "world \<Rightarrow> event \<Rightarrow> lambda_state
    \<Rightarrow> (exn + PatentResponse) \<times> lambda_state" where
  "patentPipeline w ev st =
     (case normalizeRequest ev of
        Inl e \<Rightarrow> (Inl e, st)
      | Inr request \<Rightarrow>
          (case generatePatentSummaries w request st of
             (Inl e, st1) \<Rightarrow> (Inl e, st1)
           | (Inr ps, st1) \<Rightarrow>
               (case upsertCache w request ps st1 of
                  (Inl e, st2) \<Rightarrow> (Inl e, st2)
                | (Inr _, st2) \<Rightarrow>
                    (Inr \<lparr>pr_section = rq_section request,
                          pr_timePeriod = timePeriod request,
                          patents = ps,
                          pr_generatedAt = nowIso w\<rparr>, st2))))"

definition handleApi :: "world \<Rightarrow> event \<Rightarrow> lambda_state
    \<Rightarrow> PatentResponse api_result \<times> lambda_state" where
  "handleApi w ev st =
     (case patentPipeline w ev st of
        (Inl e, st') \<Rightarrow>
          (\<lparr>statusCode = 500, headers = jsonHeaders,
            body = Message ''Unable to aggregate patent insights''\<rparr>, st')
      | (Inr response, st') \<Rightarrow>
          (\<lparr>statusCode = 200, headers = jsonHeaders, body = Payload response\<rparr>, st'))"

definition fetchPatents_handler :: "world \<Rightarrow> event \<Rightarrow> lambda_state
    \<Rightarrow> (PatentResponse api_result, PatentResponse) handler_result \<times> lambda_state" where
  "fetchPatents_handler w ev st =
     (if isApiGatewayEvent ev then
        (case handleApi w ev st of (r, st') \<Rightarrow> (Api r, st'))
      else
        (case patentPipeline w ev st of
           (Inl e, st') \<Rightarrow> (Thrown e, st')
         | (Inr response, st') \<Rightarrow> (Direct response, st')))"

section \<open>dailyRefresh: the refresh trigger and its notification\<close>

record RefreshEventDetail =
  sections :: "string list option"
  timePeriods :: "string list option"
  connections :: "string list option"

definition noDetail :: RefreshEventDetail where
  "noDetail = \<lparr>sections = None, timePeriods = None, connections = None\<rparr>"

text \<open>
  The surroundings of the refresh Lambda: its environment variables, whether
  \<^verbatim>\<open>StartExecution\<close> succeeds, and what the one \<^verbatim>\<open>ScanCommand\<close> on the sessions table
  returns (\<^verbatim>\<open>result.Items\<close>, each item with its \<^verbatim>\<open>connectionId\<close> attribute).
\<close>

record refresh_world =
  stateMachineArn :: string
  websocketEndpoint :: string
  websocketSessionsTableName :: string
  startExecutionOk :: bool
  scanItems :: "exn + string option list option"

text \<open>The calls a run issues, in order; \<^verbatim>\<open>Promise.allSettled\<close> ignores how each push ends.\<close>

datatype refresh_call =
    StartExecution "string list" "string list"
  | PostToConnection string "string list" "string list"

definition defaultSections :: "string list" where
  "defaultSections = [''ml'', ''ai'', ''iot'', ''quantum'']"

definition defaultPeriods :: "string list" where
  "defaultPeriods = [''daily'', ''weekly'', ''monthly'', ''yearly'']"

text \<open>
  The \<^verbatim>\<open>handler\<close> of \<^verbatim>\<open>infrastructure/lambda/dailyRefresh.ts\<close> (lines 18 to 60): it
  pushes only when \<^verbatim>\<open>detail.connections\<close> is an array.
\<close>

definition dailyRefresh_handler :: "refresh_world \<Rightarrow> RefreshEventDetail option
    \<Rightarrow> (exn + nat \<times> string) \<times> refresh_call list" where
  "dailyRefresh_handler rw ev =
     (let detail = orDefault ev noDetail;
          secs = orDefault (sections detail) defaultSections;
          periods = orDefault (timePeriods detail) defaultPeriods
      in if stateMachineArn rw = [] then
           (Inr (500, ''Missing state machine configuration''), [])
         else if \<not> startExecutionOk rw then (Inl SfnError, [StartExecution secs periods])
         else
           (Inr (202, ''Refresh started''),
            StartExecution secs periods #
              (if websocketEndpoint rw \<noteq> [] \<and> connections detail \<noteq> None then
                 map (\<lambda>connectionId. PostToConnection connectionId secs periods)
                   (the (connections detail))
               else [])))"

text \<open>\<^verbatim>\<open>listActiveConnections\<close> of the second copy of the module (lines 83 to 94).\<close>

definition listActiveConnections :: "refresh_world \<Rightarrow> exn + string list" where
  "listActiveConnections rw =
     (if websocketSessionsTableName rw = [] then Inr []
      else (case scanItems rw of
              Inl e \<Rightarrow> Inl e
            | Inr its \<Rightarrow>
                Inr (map the (filter (\<lambda>c. \<not> falsy c) (orDefault its [])))))"

text \<open>
  The \<^verbatim>\<open>handler\<close> of the second copy (lines 96 to 142): without
  \<^verbatim>\<open>detail.connections\<close> it lists the registered connections.
\<close>

definition dailyRefresh_handler2 :: "refresh_world \<Rightarrow> RefreshEventDetail option
    \<Rightarrow> (exn + nat \<times> string) \<times> refresh_call list" where
  "dailyRefresh_handler2 rw ev =
     (let detail = orDefault ev noDetail;
          secs = orDefault (sections detail) defaultSections;
          periods = orDefault (timePeriods detail) defaultPeriods
      in if stateMachineArn rw = [] then
           (Inr (500, ''Missing state machine configuration''), [])
         else if \<not> startExecutionOk rw then (Inl SfnError, [StartExecution secs periods])
         else
           (case (case connections detail of
                    Some cs \<Rightarrow> Inr cs
                  | None \<Rightarrow> listActiveConnections rw) of
              Inl e \<Rightarrow> (Inl e, [StartExecution secs periods])
            | Inr conns \<Rightarrow>
                (Inr (202, ''Refresh started''),
                 StartExecution secs periods #
                   (if websocketEndpoint rw \<noteq> [] \<and> length conns > 0 then
                      map (\<lambda>connectionId. PostToConnection connectionId secs periods) conns
                    else []))))"

section \<open>relatedContent: the deep-dive expansion handler\<close>

text \<open>
  A number that may be \<^verbatim>\<open>NaN\<close>: what \<^verbatim>\<open>Number.parseInt\<close> returns. Comparisons with
  \<^verbatim>\<open>NaN\<close> are false and arithmetic on it stays \<^verbatim>\<open>NaN\<close>.
\<close>

datatype js_number = NaN | Num int

fun jsMin :: "js_number \<Rightarrow> int \<Rightarrow> js_number" where
  "jsMin NaN _ = NaN"
| "jsMin (Num a) b = Num (min a b)"

fun jsMinus1 :: "js_number \<Rightarrow> js_number" where
  "jsMinus1 NaN = NaN"
| "jsMinus1 (Num a) = Num (a - 1)"

fun jsGreater1 :: "js_number \<Rightarrow> bool" where
  "jsGreater1 NaN = False"
| "jsGreater1 (Num a) = (a > 1)"

text \<open>
  \<^verbatim>\<open>Number.parseInt(s, 10)\<close> on ASCII text: leading white space is skipped, one sign is
  read, then the longest run of decimal digits; without a digit the result is \<^verbatim>\<open>NaN\<close>.
\<close>

definition isSpace :: "char \<Rightarrow> bool" where
  "isSpace c = (c \<in> set [CHR '' '', CHR 0x09, CHR 0x0A, CHR 0x0B, CHR 0x0C, CHR 0x0D])"

definition digitOf :: "char \<Rightarrow> nat option" where
  "digitOf c = map_of (zip ''0123456789'' [0, 1, 2, 3, 4, 5, 6, 7, 8, 9]) c"

fun digitsValue :: "nat \<Rightarrow> string \<Rightarrow> nat" where
  "digitsValue acc [] = acc"
| "digitsValue acc (c # cs) =
     (case digitOf c of Some d \<Rightarrow> digitsValue (10 * acc + d) cs | None \<Rightarrow> acc)"

definition unsignedInt :: "string \<Rightarrow> nat option" where
  "unsignedInt s =
     (case s of
        [] \<Rightarrow> None
      | c # _ \<Rightarrow> if digitOf c = None then None else Some (digitsValue 0 s))"

definition parseInt10 :: "string \<Rightarrow> js_number" where
  "parseInt10 s =
     (case dropWhile isSpace s of
        [] \<Rightarrow> NaN
      | c # rest \<Rightarrow>
          if c = CHR ''-'' then
            (case unsignedInt rest of None \<Rightarrow> NaN | Some n \<Rightarrow> Num (- int n))
          else if c = CHR ''+'' then
            (case unsignedInt rest of None \<Rightarrow> NaN | Some n \<Rightarrow> Num (int n))
          else
            (case unsignedInt (c # rest) of None \<Rightarrow> NaN | Some n \<Rightarrow> Num (int n)))"

text \<open>
  The event of the handler: the three path parameters and the \<^verbatim>\<open>depth\<close> query
  parameter, each possibly absent.
\<close>

record related_event =
  path_section :: "string option"
  path_period :: "string option"
  path_itemId :: "string option"
  query_depth :: "string option"

record RelatedContentRequest =
  rc_section :: string
  rc_period :: string
  itemId :: string
  depth :: "js_number option"

definition related_parseRequest :: "related_event \<Rightarrow> RelatedContentRequest" where
  "related_parseRequest ev =
     \<lparr>rc_section = orDefault (path_section ev) ''ai'',
      rc_period = orDefault (path_period ev) ''daily'',
      itemId = orDefault (path_itemId ev) ''unknown'',
      depth = (if falsy (query_depth ev) then None
               else Some (parseInt10 (the (query_depth ev))))\<rparr>"

text \<open>
  A cached item is \<^verbatim>\<open>any\<close>: the scalar properties \<^verbatim>\<open>expandRelated\<close> reads, each
  optional, and \<^verbatim>\<open>related\<close>, which is \<open>Some\<close> exactly when it is an array. The score is
  \<open>Some\<close> exactly when \<^verbatim>\<open>Number.isFinite\<close> accepts it.
\<close>

record item_fields =
  c_id :: "string option"
  c_title :: "string option"
  c_summary :: "string option"
  c_content :: "string option"
  c_sourceUrl :: "string option"
  c_source_url :: "string option"
  c_url :: "string option"
  c_verificationScore :: "rat option"

datatype cached_item = CachedItem item_fields "cached_item list option"

fun fieldsOf :: "cached_item \<Rightarrow> item_fields" where
  "fieldsOf (CachedItem f _) = f"

datatype RelatedItem =
  RelatedItem (ri_id: string) (ri_title: string) (ri_summary: string)
    (ri_sourceUrl: "string option") (ri_verificationScore: int)
    (ri_related: "RelatedItem list option")

record RelatedContentResponse =
  rcr_section :: string
  rcr_period :: string
  rcr_item :: RelatedItem
  rcr_generatedAt :: string

text \<open>
  The surroundings of the handler: the table name, what the \<^verbatim>\<open>GetCommand\<close> returns
  (\<^verbatim>\<open>result.Item\<close>, of which only \<^verbatim>\<open>newsArray\<close> is read, \<open>Some\<close> when it is an array),
  the generator behind \<^verbatim>\<open>uuid()\<close>, and the clock.
\<close>

record related_world =
  contentCacheTableName :: string
  getItem :: "exn + cached_item list option option"
  rc_uuidv4 :: "nat \<Rightarrow> string"
  rc_nowIso :: string

definition fetchCached :: "related_world \<Rightarrow> exn + cached_item list option option" where
  "fetchCached w = (if contentCacheTableName w = [] then Inr None else getItem w)"

text \<open>
  \<^verbatim>\<open>buildPlaceholder\<close>: the fallback item with two related children, each with a fresh
  id. The second component is the count of identifiers drawn.
\<close>

definition placeholderChild :: "related_world \<Rightarrow> string \<Rightarrow> nat \<Rightarrow> nat \<Rightarrow> RelatedItem" where
  "placeholderChild w sec index n =
     RelatedItem (rc_uuidv4 w n)
       (toUpperCase sec @ '' contextual insight '' @ showNat (index + 1))
       ''Placeholder context pending real AI enrichment.'' None 55 None"

definition buildPlaceholder :: "related_world \<Rightarrow> string \<Rightarrow> string \<Rightarrow> string \<Rightarrow> nat
    \<Rightarrow> RelatedItem \<times> nat" where
  "buildPlaceholder w sec period ident n =
     (RelatedItem ident
        (''Deep dive for '' @ toUpperCase sec @ '' ('' @ period @ '')'')
        ''Configure aggregation providers to unlock hierarchical related content.''
        None 60
        (Some [placeholderChild w sec 0 n, placeholderChild w sec 1 (Suc n)]),
      Suc (Suc n))"

text \<open>A \<^verbatim>\<open>RelatedItem\<close> read back as \<^verbatim>\<open>any\<close>, as when the fallback is expanded.\<close>

fun asAny :: "RelatedItem \<Rightarrow> cached_item" where
  "asAny (RelatedItem i t s u v rel) =
     CachedItem
       \<lparr>c_id = Some i, c_title = Some t, c_summary = Some s, c_content = None,
        c_sourceUrl = u, c_source_url = None, c_url = None,
        c_verificationScore = Some (of_int v)\<rparr>
       (map_option (map asAny) rel)"

text \<open>
  \<^verbatim>\<open>expandRelated\<close>. The children (at most the first three) are expanded first, with
  \<^verbatim>\<open>depth - 1\<close>, whatever the depth is; then the item is built, drawing an id when it has
  none, and the children are attached only if \<^verbatim>\<open>depth > 1\<close>.
\<close>

function (sequential) expandRelated :: "related_world \<Rightarrow> cached_item \<Rightarrow> js_number \<Rightarrow> nat
    \<Rightarrow> RelatedItem \<times> nat"
  and expandChildren :: "related_world \<Rightarrow> cached_item list \<Rightarrow> js_number \<Rightarrow> nat
    \<Rightarrow> RelatedItem list \<times> nat" where
  "expandRelated w (CachedItem f rel) d n =
     (let (relatedItems, n1) =
            (case rel of
               Some children \<Rightarrow> expandChildren w (take 3 children) (jsMinus1 d) n
             | None \<Rightarrow> ([], n));
          (i, n2) = (case c_id f of Some i \<Rightarrow> (i, n1) | None \<Rightarrow> (rc_uuidv4 w n1, Suc n1))
      in (RelatedItem i
            (orDefault (c_title f) ''Related technology development'')
            (orDefault (orElse (c_summary f) (c_content f))
               ''AI generated related insight awaiting full orchestration.'')
            (orElse (orElse (c_sourceUrl f) (c_source_url f)) (c_url f))
            (case c_verificationScore f of Some v \<Rightarrow> js_round v | None \<Rightarrow> 60)
            (if jsGreater1 d then Some relatedItems else None),
          n2))"
| "expandChildren w [] d n = ([], n)"
| "expandChildren w (child # rest) d n =
     (let (r, n1) = expandRelated w child d n;
          (rs, n2) = expandChildren w rest d n1
      in (r # rs, n2))"
  by pat_completeness auto

termination expandRelated
proof (relation "measure (\<lambda>x. case x of
          Inl (w, c, d, n) \<Rightarrow> 2 * size c
        | Inr (w, cs, d, n) \<Rightarrow> 2 * size_list size cs + 1)")
  have shorter: "size_list f (take k xs) \<le> size_list f xs"
    for f :: "cached_item \<Rightarrow> nat" and k xs
    by (induction xs arbitrary: k) (auto simp: take_Cons split: nat.splits)
  fix w :: related_world and f :: item_fields and rel :: "cached_item list option"
    and d :: js_number and n :: nat and children :: "cached_item list"
  assume "rel = Some children"
  then show "(Inr (w, take 3 children, jsMinus1 d, n), Inl (w, CachedItem f rel, d, n))
      \<in> measure (\<lambda>x. case x of
          Inl (w, c, d, n) \<Rightarrow> 2 * size c
        | Inr (w, cs, d, n) \<Rightarrow> 2 * size_list size cs + 1)"
    using shorter [of size 3 children] by simp
qed simp_all

text \<open>
  The body of the exported \<^verbatim>\<open>handler\<close> after \<^verbatim>\<open>parseRequest\<close>: the cached record is
  fetched (a failing read is thrown), the fallback is built, the target is looked up by
  id, then by title, and expanded with \<^verbatim>\<open>Math.min(request.depth ?? 3, 5)\<close>.
\<close>

definition relatedHeaders :: "(string \<times> string) list" where
  "relatedHeaders = [(''Content-Type'', ''application/json''),
     (''Access-Control-Allow-Origin'', ''*''), (''Cache-Control'', ''no-store'')]"

definition titleMatches :: "string \<Rightarrow> cached_item \<Rightarrow> bool" where
  "titleMatches ident it =
     (case c_title (fieldsOf it) of
        Some t \<Rightarrow> includesStr (toLowerCase t) (toLowerCase ident)
      | None \<Rightarrow> False)"

definition candidatesOf :: "cached_item list option option \<Rightarrow> cached_item list" where
  "candidatesOf cached = (case cached of Some (Some arr) \<Rightarrow> arr | _ \<Rightarrow> [])"

definition selectTarget :: "cached_item list \<Rightarrow> string \<Rightarrow> RelatedItem \<Rightarrow> cached_item" where
  "selectTarget candidates ident fallback =
     (case find (\<lambda>it. c_id (fieldsOf it) = Some ident) candidates of
        Some t \<Rightarrow> t
      | None \<Rightarrow>
          (case find (titleMatches ident) candidates of
             Some t \<Rightarrow> t
           | None \<Rightarrow> asAny fallback))"

definition relatedContent :: "related_world \<Rightarrow> RelatedContentRequest \<Rightarrow> nat
    \<Rightarrow> (exn + RelatedContentResponse api_result) \<times> nat" where
  "relatedContent w request n =
     (case fetchCached w of
        Inl e \<Rightarrow> (Inl e, n)
      | Inr cached \<Rightarrow>
          (let candidates = candidatesOf cached;
               (fallback, n1) =
                 buildPlaceholder w (rc_section request) (rc_period request) (itemId request) n;
               target = selectTarget candidates (itemId request) fallback;
               (expanded, n2) =
                 expandRelated w target (jsMin (orDefault (depth request) (Num 3)) 5) n1
           in (Inr \<lparr>statusCode = 200, headers = relatedHeaders,
                    body = Payload \<lparr>rcr_section = rc_section request,
                                     rcr_period = rc_period request,
                                     rcr_item = expanded,
                                     rcr_generatedAt = rc_nowIso w\<rparr>\<rparr>,
               n2)))"

definition related_handler :: "related_world \<Rightarrow> related_event \<Rightarrow> nat
    \<Rightarrow> (exn + RelatedContentResponse api_result) \<times> nat" where
  "related_handler w ev n = relatedContent w (related_parseRequest ev) n"

section \<open>Notions of the specification\<close>

text \<open>
  A provider call is unavailable when it threw or returned \<^verbatim>\<open>null\<close>; it had nothing when,
  in addition, a result with an empty item list counts.
\<close>

fun unavailable :: "exn + AiResult option \<Rightarrow> bool" where
  "unavailable (Inl _) = True"
| "unavailable (Inr None) = True"
| "unavailable (Inr (Some _)) = False"

fun unavailableOrEmpty :: "exn + AiResult option \<Rightarrow> bool" where
  "unavailableOrEmpty (Inl _) = True"
| "unavailableOrEmpty (Inr None) = True"
| "unavailableOrEmpty (Inr (Some r)) = (items r = [])"





text \<open>
  The number of levels a deep-dive request asks for, as the specification words it: the
  requested depth clamped to the range from 1 to 5, and 3 without a depth. A depth that
  is not a number gets one level.
\<close>

fun effectiveDepth :: "js_number option \<Rightarrow> nat" where
  "effectiveDepth None = 3"
| "effectiveDepth (Some NaN) = 1"
| "effectiveDepth (Some (Num d)) = nat (max 1 (min 5 d))"

text \<open>
  \<open>expandsTo k item out\<close>: the returned item \<open>out\<close> is the stored \<open>item\<close> expanded to
  exactly \<open>k\<close> levels. It keeps the id the stored item has; on the last level it has no
  \<^verbatim>\<open>related\<close>; above it, its \<^verbatim>\<open>related\<close> are the first three stored children, in order,
  each expanded to the levels that remain.
\<close>

fun expandsTo :: "nat \<Rightarrow> cached_item \<Rightarrow> RelatedItem \<Rightarrow> bool" where
  "expandsTo 0 item out = False"
| "expandsTo (Suc k) (CachedItem f rel) out =
     ((case c_id f of Some i \<Rightarrow> ri_id out = i | None \<Rightarrow> True)
      \<and> (if k = 0 then ri_related out = None
         else (case ri_related out of
                 None \<Rightarrow> False
               | Some cs \<Rightarrow> list_all2 (expandsTo k) (take 3 (orDefault rel [])) cs)))"

text \<open>The ids along the first child of each level of a returned item.\<close>

fun spine :: "RelatedItem \<Rightarrow> string list" where
  "spine (RelatedItem i t s u v rel) =
     i # (case rel of Some (c # cs) \<Rightarrow> spine c | _ \<Rightarrow> [])"

text \<open>
  The levels a depth stands for in \<^verbatim>\<open>expandRelated\<close>: the depth itself when it is above
  1, and one level otherwise.
\<close>

fun levelsOf :: "js_number \<Rightarrow> nat" where
  "levelsOf NaN = 1"
| "levelsOf (Num d) = nat (max 1 d)"

text \<open>An event omits a field when neither its body nor its query string carries it.\<close>

fun omitsSection :: "event \<Rightarrow> bool" where
  "omitsSection (ApiGatewayEvent NoBody qs _) = (qs = None)"
| "omitsSection (ApiGatewayEvent (ParsedObject bs _) qs _) = (bs = None \<and> qs = None)"
| "omitsSection (ApiGatewayEvent _ _ _) = False"
| "omitsSection (DirectEvent es _ _) = (es = None)"

fun omitsTimePeriod :: "event \<Rightarrow> bool" where
  "omitsTimePeriod (ApiGatewayEvent NoBody _ qt) = (qt = None)"
| "omitsTimePeriod (ApiGatewayEvent (ParsedObject _ bt) _ qt) = (bt = None \<and> qt = None)"
| "omitsTimePeriod (ApiGatewayEvent _ _ _) = False"
| "omitsTimePeriod (DirectEvent _ et _) = (et = None)"

text \<open>Every node of an expanded tree that carries children carries at most \<open>k\<close>.\<close>

fun childrenAtMost :: "nat \<Rightarrow> RelatedItem \<Rightarrow> bool" where
  "childrenAtMost k (RelatedItem _ _ _ _ _ rel) =
     (case rel of
        None \<Rightarrow> True
      | Some cs \<Rightarrow> length cs \<le> k \<and> list_all (childrenAtMost k) cs)"

section \<open>Concrete inputs\<close>

definition sampleUuid :: "nat \<Rightarrow> string" where
  "sampleUuid n = ''uuid-'' @ showNat n"

definition initState :: lambda_state where
  "initState = \<lparr>cachedSecrets = None, uuidCount = 0, cacheTable = Map.empty\<rparr>"

text \<open>No secret is configured and every outbound call fails; the cache accepts writes.\<close>

definition quietWorld :: world where
  "quietWorld = \<lparr>secretArn = [], secretFetch = Inr noSecrets,
     postPerplexity = (\<lambda>q k. HttpFailure), postGemini = (\<lambda>q k. HttpFailure),
     postChatGpt = (\<lambda>q k. HttpFailure), cacheWriteOk = True,
     nowIso = ''2024-01-01T00:00:00.000Z'', nowMillis = 1704067200000,
     uuidv4 = sampleUuid\<rparr>"

definition aiDaily :: AggregationRequest where
  "aiDaily = \<lparr>rq_section = ''ai'', timePeriod = ''daily'', mode = Some ''api''\<rparr>"

definition aiDailyEvent :: event where
  "aiDailyEvent = ApiGatewayEvent (ParsedObject (Some ''ai'') (Some ''daily'')) None None"

definition rawTitled :: "string \<Rightarrow> raw_item" where
  "rawTitled t = emptyRaw\<lparr>r_title := Some t\<rparr>"

definition twoKeys :: SecretBundle where
  "twoKeys = \<lparr>perplexityApiKey = Some ''pk'', geminiApiKey = Some ''gk'', chatGptApiKey = None\<rparr>"

text \<open>
  Perplexity answers with confidence 0.9 and no results; Gemini answers with two
  candidates.
\<close>

definition emptyPerplexityWorld :: world where
  "emptyPerplexityWorld = quietWorld\<lparr>secretArn := ''arn'', secretFetch := Inr twoKeys,
     postPerplexity :=
       (\<lambda>q k. HttpOk (Some \<lparr>pd_confidence = Some (d64 (9 / 10)), pd_results = Some []\<rparr>)),
     postGemini :=
       (\<lambda>q k. HttpOk (Some \<lparr>gd_candidates = Some [rawTitled ''A'', rawTitled ''B'']\<rparr>))\<rparr>"

text \<open>
  Only the Perplexity key is configured; Perplexity answers with confidence 0.9 and no
  results.
\<close>

definition perplexityOnly :: SecretBundle where
  "perplexityOnly =
     \<lparr>perplexityApiKey = Some ''pk'', geminiApiKey = None, chatGptApiKey = None\<rparr>"

definition perplexityOnlyWorld :: world where
  "perplexityOnlyWorld = quietWorld\<lparr>secretArn := ''arn'', secretFetch := Inr perplexityOnly,
     postPerplexity :=
       (\<lambda>q k. HttpOk (Some \<lparr>pd_confidence = Some (d64 (9 / 10)), pd_results = Some []\<rparr>))\<rparr>"





text \<open>Only the ChatGPT key is configured, and the ChatGPT call fails.\<close>

definition chatGptOnly :: SecretBundle where
  "chatGptOnly = \<lparr>perplexityApiKey = None, geminiApiKey = None, chatGptApiKey = Some ''ck''\<rparr>"

definition chatGptDownWorld :: world where
  "chatGptDownWorld = quietWorld\<lparr>secretArn := ''arn'', secretFetch := Inr chatGptOnly\<rparr>"


text \<open>Everything is configured and two connections are registered.\<close>

definition liveWorld :: refresh_world where
  "liveWorld = \<lparr>stateMachineArn = ''arn:sfn'', websocketEndpoint = ''https://ws'',
     websocketSessionsTableName = ''sessions'', startExecutionOk = True,
     scanItems = Inr (Some [Some ''c1'', Some ''c2''])\<rparr>"

definition bareItem :: "string \<Rightarrow> cached_item list option \<Rightarrow> cached_item" where
  "bareItem i rel =
     CachedItem \<lparr>c_id = Some i, c_title = None, c_summary = None, c_content = None,
       c_sourceUrl = None, c_source_url = None, c_url = None,
       c_verificationScore = None\<rparr> rel"

definition fiveChildren :: cached_item where
  "fiveChildren = bareItem ''root''
     (Some [bareItem ''a'' None, bareItem ''b'' None, bareItem ''c'' None,
            bareItem ''d'' None, bareItem ''e'' None])"

text \<open>A stored item with seven levels: each level has one child, down to \<^verbatim>\<open>l7\<close>.\<close>

definition sevenLevels :: cached_item where
  "sevenLevels =
     bareItem ''l1'' (Some [bareItem ''l2'' (Some [bareItem ''l3'' (Some [bareItem ''l4''
       (Some [bareItem ''l5'' (Some [bareItem ''l6'' (Some [bareItem ''l7'' None])])])])])])"

definition relatedWorld :: related_world where
  "relatedWorld = \<lparr>contentCacheTableName = ''cache'',
     getItem = Inr (Some (Some [fiveChildren, sevenLevels])),
     rc_uuidv4 = sampleUuid, rc_nowIso = ''2024-01-01T00:00:00.000Z''\<rparr>"

definition rootEvent :: "string option \<Rightarrow> related_event" where
  "rootEvent d = \<lparr>path_section = Some ''ai'', path_period = Some ''daily'',
     path_itemId = Some ''root'', query_depth = d\<rparr>"

definition deepEvent :: "string option \<Rightarrow> related_event" where
  "deepEvent d = \<lparr>path_section = Some ''ai'', path_period = Some ''daily'',
     path_itemId = Some ''l1'', query_depth = d\<rparr>"

section \<open>Auxiliary facts\<close>

subsection \<open>Binary64 rounding\<close>


















text \<open>The products and scores of the confidences used below, evaluated.\<close>

lemma product_09: "dmul (d64 (9 / 10)) 100 = 90"
  by code_simp




lemma score_0995: "dmul (d64 (995 / 1000)) 100 = 995 / 10"
  "js_round (dmul (d64 (995 / 1000)) 100) = 100" "d64 (995 / 1000) * 100 < 995 / 10"
  by code_simp+





lemma showNat_90: "showNat 90 = ''90''"
  by (simp add: showNat.simps)

lemma toFixed0_90: "toFixed0 90 = ''90''"
proof -
  have "\<lfloor>(90 :: rat) + 1 / 2\<rfloor> = 90"
    by (rule floor_unique) simp_all
  then show ?thesis
    by (simp add: toFixed0_def showNat_90)
qed

subsection \<open>The news pipeline\<close>

lemma caught_unavailable: "unavailable c \<Longrightarrow> caught c = None"
  by (cases c rule: unavailable.cases) simp_all

lemma no_key_unavailable:
  "unavailable (callPerplexity w q None)" "unavailable (callGemini w q None)"
  "unavailable (callChatGpt w q None)"
  by (simp_all add: callPerplexity_def callGemini_def callChatGpt_def)

lemma no_key_unavailableOrEmpty:
  "unavailableOrEmpty (callGemini w q None)" "unavailableOrEmpty (callChatGpt w q None)"
  by (simp_all add: callGemini_def callChatGpt_def)

lemma cascade_unavailable:
  assumes "unavailable (callPerplexity w q (perplexityApiKey s))"
    and "unavailable (callGemini w q (geminiApiKey s))"
    and "unavailable (callChatGpt w q (chatGptApiKey s))"
  shows "cascade w s q = None"
  using assms by (simp add: cascade_def caught_unavailable)




lemma placeholder_scores:
  "map verificationScore (fst (buildPlaceholderItems w sec p st)) = [50, 50, 50]"
  by (simp add: buildPlaceholderItems_def placeholderItem_def split_beta)


lemma placeholder_marshallable:
  "list_all newsMarshallable (fst (buildPlaceholderItems w sec p st))"
  by (simp add: buildPlaceholderItems_def placeholderItem_def split_beta newsMarshallable_def)


lemma quiet_write_ok: "cacheWriteOk quietWorld"
  by (simp add: quietWorld_def)

lemma noSecrets_keys:
  "perplexityApiKey noSecrets = None" "geminiApiKey noSecrets = None"
  "chatGptApiKey noSecrets = None"
  by (simp_all add: noSecrets_def)







subsection \<open>The patent cache write\<close>








subsection \<open>The deep-dive expansion\<close>

lemma shallow_minus1: "\<not> jsGreater1 d \<Longrightarrow> \<not> jsGreater1 (jsMinus1 d)"
  by (cases d) simp_all

text \<open>
  At a depth that is not above 1 the children are expanded and dropped, and the same
  identifiers are drawn, so the result does not depend on which such depth it is.
\<close>

lemma expand_shallow:
  "\<not> jsGreater1 d \<Longrightarrow> \<not> jsGreater1 d' \<Longrightarrow> expandRelated w it d n = expandRelated w it d' n"
  "\<not> jsGreater1 d \<Longrightarrow> \<not> jsGreater1 d' \<Longrightarrow> expandChildren w cs d n = expandChildren w cs d' n"
proof (induction w it d n and w cs d n arbitrary: d' and d'
    rule: expandRelated_expandChildren.induct)
  case (1 w f rel d n)
  show ?case
  proof (cases rel)
    case None
    then show ?thesis using "1.prems" by simp
  next
    case (Some children)
    have "expandChildren w (take 3 children) (jsMinus1 d) n
        = expandChildren w (take 3 children) (jsMinus1 d') n"
      using "1.IH" [OF Some, of "jsMinus1 d'"] "1.prems" by (simp add: shallow_minus1)
    with "1.prems" Some show ?thesis by simp
  qed
next
  case (2 w d n)
  show ?case by simp
next
  case (3 w child rest d n)
  have a: "expandRelated w child d n = expandRelated w child d' n"
    using "3.IH"(1) [of d'] "3.prems" by simp
  obtain r n1 where r: "expandRelated w child d n = (r, n1)"
    by (cases "expandRelated w child d n")
  have b: "expandChildren w rest d n1 = expandChildren w rest d' n1"
    using "3.IH"(2) [OF r [symmetric] refl, of d'] "3.prems" by simp
  have r': "expandRelated w child d' n = (r, n1)"
    using a r by simp
  show ?case
    by (simp add: r r' b)
qed

lemma effective_depth:
  "expandRelated w it (jsMin (Num d) 5) n
     = expandRelated w it (jsMin (Num (max 1 (min 5 d))) 5) n"
proof (cases "1 \<le> d")
  case True
  then have "min (max 1 (min 5 d)) 5 = min d 5" by simp
  then show ?thesis by simp
next
  case False
  then have "\<not> jsGreater1 (jsMin (Num d) 5)"
    and "\<not> jsGreater1 (jsMin (Num (max 1 (min 5 d))) 5)"
    by simp_all
  then show ?thesis by (rule expand_shallow)
qed

lemma relatedContent_depth_only:
  assumes "rc_section r1 = rc_section r2" and "rc_period r1 = rc_period r2"
    and "itemId r1 = itemId r2"
    and "\<And>it k. expandRelated w it (jsMin (orDefault (depth r1) (Num 3)) 5) k
           = expandRelated w it (jsMin (orDefault (depth r2) (Num 3)) 5) k"
  shows "relatedContent w r1 n = relatedContent w r2 n"
  unfolding relatedContent_def assms(1) assms(2) assms(3) assms(4)
  by (rule refl)

lemma parseInt10_samples:
  "parseInt10 ''100'' = Num 100" "parseInt10 ''5'' = Num 5"
  "parseInt10 ''0'' = Num 0" "parseInt10 ''1'' = Num 1"
  by (simp_all add: parseInt10_def isSpace_def unsignedInt_def digitOf_def)

lemma expand_bounded:
  "childrenAtMost 3 (fst (expandRelated w it d n))"
  "list_all (childrenAtMost 3) (fst (expandChildren w cs d n))
     \<and> length (fst (expandChildren w cs d n)) = length cs"
proof (induction w it d n and w cs d n rule: expandRelated_expandChildren.induct)
  case (1 w f rel d n)
  then show ?case
    by (cases rel) (simp_all add: split_beta)
next
  case (2 w d n)
  show ?case by simp
next
  case (3 w child rest d n)
  obtain r n1 where r: "expandRelated w child d n = (r, n1)"
    by (cases "expandRelated w child d n")
  show ?case
    using "3.IH"(1) "3.IH"(2) [OF r [symmetric] refl] r
    by (simp add: split_beta)
qed


text \<open>
  \<^verbatim>\<open>expandRelated\<close> returns the stored item expanded to the levels of its depth, and
  so does each expanded child.
\<close>

lemma levelsOf_deep:
  "jsGreater1 d \<Longrightarrow> levelsOf d = Suc (levelsOf (jsMinus1 d)) \<and> levelsOf (jsMinus1 d) \<noteq> 0"
  by (cases d) (simp_all add: nat_diff_distrib' Suc_nat_eq_nat_zadd1)

lemma levelsOf_shallow: "\<not> jsGreater1 d \<Longrightarrow> levelsOf d = Suc 0"
  by (cases d) simp_all

lemma expand_levels:
  "expandsTo (levelsOf d) it (fst (expandRelated w it d n))"
  "list_all2 (expandsTo (levelsOf d)) cs (fst (expandChildren w cs d n))"
proof (induction w it d n and w cs d n rule: expandRelated_expandChildren.induct)
  case (1 w f rel d n)
  show ?case
  proof (cases "jsGreater1 d")
    case False
    then show ?thesis
      by (simp add: levelsOf_shallow split_beta split: option.splits)
  next
    case True
    note deep = levelsOf_deep [OF True]
    show ?thesis
    proof (cases rel)
      case None
      then show ?thesis
        using True deep by (simp add: split_beta split: option.splits)
    next
      case (Some children)
      then show ?thesis
        using True deep "1.IH" [OF Some]
        by (simp add: split_beta split: option.splits)
    qed
  qed
next
  case (2 w d n)
  show ?case by simp
next
  case (3 w child rest d n)
  obtain r n1 where r: "expandRelated w child d n = (r, n1)"
    by (cases "expandRelated w child d n")
  show ?case
    using "3.IH"(1) "3.IH"(2) [OF r [symmetric] refl] r
    by (simp add: split_beta)
qed

lemma spine_sel:
  "spine out = ri_id out # (case ri_related out of Some (c # cs) \<Rightarrow> spine c | _ \<Rightarrow> [])"
  by (cases out) simp

lemma effectiveDepth_levels:
  "levelsOf (jsMin (orDefault dq (Num 3)) 5) = effectiveDepth dq"
proof (cases dq)
  case None
  then show ?thesis by simp
next
  case (Some d)
  then show ?thesis
    by (cases d) (simp_all add: max_def min_def)
qed
section \<open>The claims\<close>

subsection \<open>C1: which provider the cascade selects\<close>

text \<open>
  C1 says that the cascade selects the first provider whose result has at least one item,
  and that a successful result with an empty item list makes it try the next provider.
  The cascade of \<^verbatim>\<open>aggregateContent\<close> tests \<^verbatim>\<open>!aiResult\<close> only. With Perplexity
  answering confidence 0.9 and no results, and Gemini ready to answer with two
  candidates, the cascade keeps the empty Perplexity result; the response then carries
  three placeholder items of score 50 under a summary that names Perplexity as the
  verifier.
\<close>

theorem cascade_keeps_empty_result:
  "callGemini emptyPerplexityWorld (newsQuery aiDaily) (geminiApiKey twoKeys)
     = Inr (Some \<lparr>provider = ''gemini'', confidence = d64 (7 / 10),
                  items = [rawTitled ''A'', rawTitled ''B'']\<rparr>)
   \<and> cascade emptyPerplexityWorld twoKeys (newsQuery aiDaily)
     = Some \<lparr>provider = ''perplexity'', confidence = d64 (9 / 10), items = []\<rparr>
   \<and> map_sum id verificationSummary
        (fst (aggregateContent emptyPerplexityWorld aiDaily initState))
     = Inr ''Content verified via perplexity with confidence 90%.''
   \<and> map_sum id (map verificationScore \<circ> resp_items)
        (fst (aggregateContent emptyPerplexityWorld aiDaily initState))
     = Inr [50, 50, 50]"
proof -
  have sec: "resolveSecrets emptyPerplexityWorld initState
      = (Inr twoKeys, initState\<lparr>cachedSecrets := Some twoKeys\<rparr>)"
    by (simp add: resolveSecrets_def emptyPerplexityWorld_def quietWorld_def initState_def)
  have gem: "callGemini emptyPerplexityWorld (newsQuery aiDaily) (geminiApiKey twoKeys)
     = Inr (Some \<lparr>provider = ''gemini'', confidence = d64 (7 / 10),
                  items = [rawTitled ''A'', rawTitled ''B'']\<rparr>)"
    by (simp add: callGemini_def emptyPerplexityWorld_def quietWorld_def twoKeys_def)
  have sel: "cascade emptyPerplexityWorld twoKeys (newsQuery aiDaily)
     = Some \<lparr>provider = ''perplexity'', confidence = d64 (9 / 10), items = []\<rparr>"
    by (simp add: cascade_def callPerplexity_def emptyPerplexityWorld_def quietWorld_def
        twoKeys_def)
  have ok: "cacheWriteOk emptyPerplexityWorld"
    by (simp add: emptyPerplexityWorld_def quietWorld_def)
  have out: "map_sum id verificationSummary
        (fst (aggregateContent emptyPerplexityWorld aiDaily initState))
     = Inr ''Content verified via perplexity with confidence 90%.''
   \<and> map_sum id (map verificationScore \<circ> resp_items)
        (fst (aggregateContent emptyPerplexityWorld aiDaily initState))
     = Inr [50, 50, 50]"
    using ok
    by (simp add: aggregateContent_def sec sel split_beta Let_def summaryText_def product_09
        toFixed0_90 placeholder_scores placeholder_marshallable)
  from gem sel out show ?thesis by simp
qed

subsection \<open>C2: the response when no provider has anything\<close>

text \<open>
  C2 says that when every provider is unavailable or returns no items, the request
  succeeds with exactly three placeholder items and a verification summary stating that
  the providers were unavailable. With only the Perplexity key configured and Perplexity
  answering confidence 0.9 and no results, every provider call is unavailable or empty,
  the secrets resolve, the request parses and the cache write succeeds: the handler
  answers 200 with three placeholder items of score 50, and the summary reads
  \<^verbatim>\<open>Content verified via perplexity with confidence 90%.\<close> The summary is chosen by
  \<^verbatim>\<open>aiResult?.provider\<close>, and the cascade has kept the result without items. With no
  provider configured at all, the same request gets the same items under the sentence
  that the providers were unavailable.
\<close>

theorem exhausted_cascade_names_a_verifier:
  "unavailableOrEmpty
     (callPerplexity perplexityOnlyWorld (newsQuery aiDaily) (perplexityApiKey perplexityOnly))
   \<and> unavailableOrEmpty
       (callGemini perplexityOnlyWorld (newsQuery aiDaily) (geminiApiKey perplexityOnly))
   \<and> unavailableOrEmpty
       (callChatGpt perplexityOnlyWorld (newsQuery aiDaily) (chatGptApiKey perplexityOnly))
   \<and> fst (resolveSecrets perplexityOnlyWorld initState) = Inr perplexityOnly
   \<and> parseRequest aiDailyEvent = Inr aiDaily
   \<and> cacheWriteOk perplexityOnlyWorld
   \<and> (\<exists>resp. fst (handleApiGateway perplexityOnlyWorld aiDailyEvent initState)
               = \<lparr>statusCode = 200, headers = jsonHeaders, body = Payload resp\<rparr>
            \<and> map verificationScore (resp_items resp) = [50, 50, 50]
            \<and> verificationSummary resp
                = ''Content verified via perplexity with confidence 90%.'')
   \<and> (\<exists>resp. fst (handleApiGateway quietWorld aiDailyEvent initState)
               = \<lparr>statusCode = 200, headers = jsonHeaders, body = Payload resp\<rparr>
            \<and> map verificationScore (resp_items resp) = [50, 50, 50]
            \<and> verificationSummary resp
                = ''Placeholder content generated because AI providers were unavailable.'')"
proof -
  have rq: "parseRequest aiDailyEvent = Inr aiDaily"
    by (simp add: aiDailyEvent_def aiDaily_def)
  have keys: "perplexityApiKey perplexityOnly = Some ''pk''"
    "geminiApiKey perplexityOnly = None" "chatGptApiKey perplexityOnly = None"
    by (simp_all add: perplexityOnly_def)
  have sec: "resolveSecrets perplexityOnlyWorld initState
      = (Inr perplexityOnly, initState\<lparr>cachedSecrets := Some perplexityOnly\<rparr>)"
    by (simp add: resolveSecrets_def perplexityOnlyWorld_def quietWorld_def initState_def)
  have ok: "cacheWriteOk perplexityOnlyWorld"
    by (simp add: perplexityOnlyWorld_def quietWorld_def)
  have p: "callPerplexity perplexityOnlyWorld (newsQuery aiDaily) (Some ''pk'')
      = Inr (Some \<lparr>provider = ''perplexity'', confidence = d64 (9 / 10), items = []\<rparr>)"
    by (simp add: callPerplexity_def perplexityOnlyWorld_def quietWorld_def)
  have sel: "cascade perplexityOnlyWorld perplexityOnly (newsQuery aiDaily)
     = Some \<lparr>provider = ''perplexity'', confidence = d64 (9 / 10), items = []\<rparr>"
    by (simp add: cascade_def keys p)
  have calls: "unavailableOrEmpty
     (callPerplexity perplexityOnlyWorld (newsQuery aiDaily) (perplexityApiKey perplexityOnly))
   \<and> unavailableOrEmpty
       (callGemini perplexityOnlyWorld (newsQuery aiDaily) (geminiApiKey perplexityOnly))
   \<and> unavailableOrEmpty
       (callChatGpt perplexityOnlyWorld (newsQuery aiDaily) (chatGptApiKey perplexityOnly))"
    by (simp add: keys p no_key_unavailableOrEmpty)
  have slip: "\<exists>resp. fst (handleApiGateway perplexityOnlyWorld aiDailyEvent initState)
               = \<lparr>statusCode = 200, headers = jsonHeaders, body = Payload resp\<rparr>
            \<and> map verificationScore (resp_items resp) = [50, 50, 50]
            \<and> verificationSummary resp
                = ''Content verified via perplexity with confidence 90%.''"
    using ok
    by (simp add: handleApiGateway_def rq aggregateContent_def sec sel split_beta Let_def
        summaryText_def product_09 toFixed0_90 placeholder_scores placeholder_marshallable)
  have qsec: "resolveSecrets quietWorld initState
      = (Inr noSecrets, initState\<lparr>cachedSecrets := Some noSecrets\<rparr>)"
    by (simp add: resolveSecrets_def quietWorld_def initState_def)
  have none: "cascade quietWorld noSecrets (newsQuery aiDaily) = None"
    by (rule cascade_unavailable) (simp_all only: noSecrets_keys no_key_unavailable)
  have quiet: "\<exists>resp. fst (handleApiGateway quietWorld aiDailyEvent initState)
               = \<lparr>statusCode = 200, headers = jsonHeaders, body = Payload resp\<rparr>
            \<and> map verificationScore (resp_items resp) = [50, 50, 50]
            \<and> verificationSummary resp
                = ''Placeholder content generated because AI providers were unavailable.''"
    using quiet_write_ok
    by (simp add: handleApiGateway_def rq aggregateContent_def qsec none split_beta Let_def
        summaryText_def placeholder_scores placeholder_marshallable)
  from calls sec rq ok slip quiet show ?thesis by simp
qed

subsection \<open>C3: one score for all items of a generation\<close>



subsection \<open>C4: what an upsert leaves in the record\<close>




subsection \<open>C5: the effective expansion depth\<close>

text \<open>
  C5: the handler expands the target to the requested depth clamped to the range from 1
  to 5, and to 3 levels without a depth. For every stored item and every requested depth
  \<open>dq\<close>, \<^verbatim>\<open>expandRelated\<close> under \<^verbatim>\<open>Math.min(dq ?? 3, 5)\<close> returns the item expanded to
  exactly \<open>effectiveDepth dq\<close> levels: each level above the last carries the first three
  stored children, the last level carries no \<^verbatim>\<open>related\<close>. When the cache read succeeds,
  the handler answers 200 with the target (found by id, then by title, else the
  fallback) expanded to exactly that many levels. Hence the handler returns for a depth
  \<open>d\<close> what it returns for \<open>d\<close> clamped to the range from 1 to 5, and without a depth what
  it returns for 3; the query \<^verbatim>\<open>depth=100\<close> gives the result of \<^verbatim>\<open>depth=5\<close>, and
  \<^verbatim>\<open>depth=0\<close> that of \<^verbatim>\<open>depth=1\<close>. A depth that \<^verbatim>\<open>parseInt\<close> cannot read gives one
  level. The results are compared under the same cache content, clock and identifier
  supply.
\<close>

theorem depth_is_clamped:
  assumes fc: "fetchCached w = Inr cached"
  shows "expandsTo (effectiveDepth dq) it
       (fst (expandRelated w it (jsMin (orDefault dq (Num 3)) 5) k))
   \<and> (\<exists>resp n'. relatedContent w (request\<lparr>depth := dq\<rparr>) n
          = (Inr \<lparr>statusCode = 200, headers = relatedHeaders, body = Payload resp\<rparr>, n')
        \<and> expandsTo (effectiveDepth dq)
            (selectTarget (candidatesOf cached) (itemId request)
               (fst (buildPlaceholder w (rc_section request) (rc_period request)
                  (itemId request) n)))
            (rcr_item resp))
   \<and> relatedContent w (request\<lparr>depth := Some (Num d)\<rparr>) n
     = relatedContent w (request\<lparr>depth := Some (Num (max 1 (min 5 d)))\<rparr>) n
   \<and> relatedContent w (request\<lparr>depth := None\<rparr>) n
     = relatedContent w (request\<lparr>depth := Some (Num 3)\<rparr>) n
   \<and> related_handler w (ev\<lparr>query_depth := Some ''100''\<rparr>) n
     = related_handler w (ev\<lparr>query_depth := Some ''5''\<rparr>) n
   \<and> related_handler w (ev\<lparr>query_depth := Some ''0''\<rparr>) n
     = related_handler w (ev\<lparr>query_depth := Some ''1''\<rparr>) n"
proof -
  have lv: "expandsTo (effectiveDepth dq) t
       (fst (expandRelated w t (jsMin (orDefault dq (Num 3)) 5) j))" for t j
    using expand_levels(1) [of "jsMin (orDefault dq (Num 3)) 5" t w j]
    by (simp only: effectiveDepth_levels)
  have h: "\<exists>resp n'. relatedContent w (request\<lparr>depth := dq\<rparr>) n
          = (Inr \<lparr>statusCode = 200, headers = relatedHeaders, body = Payload resp\<rparr>, n')
        \<and> expandsTo (effectiveDepth dq)
            (selectTarget (candidatesOf cached) (itemId request)
               (fst (buildPlaceholder w (rc_section request) (rc_period request)
                  (itemId request) n)))
            (rcr_item resp)"
    using lv by (simp add: relatedContent_def fc split_beta Let_def)
  have a: "relatedContent w (r\<lparr>depth := Some (Num k)\<rparr>) n
     = relatedContent w (r\<lparr>depth := Some (Num (max 1 (min 5 k)))\<rparr>) n" for r k
  proof (rule relatedContent_depth_only)
    fix it j
    show "expandRelated w it (jsMin (orDefault (depth (r\<lparr>depth := Some (Num k)\<rparr>)) (Num 3)) 5) j
        = expandRelated w it
            (jsMin (orDefault (depth (r\<lparr>depth := Some (Num (max 1 (min 5 k)))\<rparr>)) (Num 3)) 5) j"
      using effective_depth [of w it k j] by simp
  qed simp_all
  have b: "relatedContent w (request\<lparr>depth := None\<rparr>) n
     = relatedContent w (request\<lparr>depth := Some (Num 3)\<rparr>) n"
    by (rule relatedContent_depth_only) simp_all
  have c: "related_handler w (ev\<lparr>query_depth := Some ''100''\<rparr>) n
     = related_handler w (ev\<lparr>query_depth := Some ''5''\<rparr>) n"
    using a [where r = "related_parseRequest ev" and k = 100]
    by (simp add: related_handler_def related_parseRequest_def parseInt10_samples)
  have e: "related_handler w (ev\<lparr>query_depth := Some ''0''\<rparr>) n
     = related_handler w (ev\<lparr>query_depth := Some ''1''\<rparr>) n"
    using a [where r = "related_parseRequest ev" and k = 0]
    by (simp add: related_handler_def related_parseRequest_def parseInt10_samples)
  from lv h a b c e show ?thesis by blast
qed

text \<open>
  C5 at a concrete input: the cache holds an item with seven levels, \<^verbatim>\<open>l1\<close> down to
  \<^verbatim>\<open>l7\<close>. Requested with depth 100 the handler returns the five levels \<^verbatim>\<open>l1\<close> to
  \<^verbatim>\<open>l5\<close>, the result of depth 5; with depth 0 the one level \<^verbatim>\<open>l1\<close>, the result of depth
  1; without a depth the three levels \<^verbatim>\<open>l1\<close> to \<^verbatim>\<open>l3\<close>.
\<close>

theorem depth_is_clamped_witness:
  "(\<exists>resp n'. related_handler relatedWorld (deepEvent (Some ''100'')) 0
        = (Inr \<lparr>statusCode = 200, headers = relatedHeaders, body = Payload resp\<rparr>, n')
      \<and> spine (rcr_item resp) = [''l1'', ''l2'', ''l3'', ''l4'', ''l5''])
   \<and> (\<exists>resp n'. related_handler relatedWorld (deepEvent (Some ''0'')) 0
        = (Inr \<lparr>statusCode = 200, headers = relatedHeaders, body = Payload resp\<rparr>, n')
      \<and> spine (rcr_item resp) = [''l1''])
   \<and> (\<exists>resp n'. related_handler relatedWorld (deepEvent None) 0
        = (Inr \<lparr>statusCode = 200, headers = relatedHeaders, body = Payload resp\<rparr>, n')
      \<and> spine (rcr_item resp) = [''l1'', ''l2'', ''l3''])
   \<and> related_handler relatedWorld (deepEvent (Some ''100'')) 0
     = related_handler relatedWorld (deepEvent (Some ''5'')) 0
   \<and> related_handler relatedWorld (deepEvent (Some ''0'')) 0
     = related_handler relatedWorld (deepEvent (Some ''1'')) 0"
proof -
  have fc: "fetchCached relatedWorld = Inr (Some (Some [fiveChildren, sevenLevels]))"
    by (simp add: fetchCached_def relatedWorld_def)
  have target: "selectTarget (candidatesOf (Some (Some [fiveChildren, sevenLevels]))) ''l1'' fb
      = sevenLevels" for fb
    by (simp add: selectTarget_def candidatesOf_def fiveChildren_def sevenLevels_def
        bareItem_def)
  have rq: "related_parseRequest (deepEvent q)
      = \<lparr>rc_section = ''ai'', rc_period = ''daily'', itemId = ''l1'', depth = None\<rparr>
          \<lparr>depth := (if falsy q then None else Some (parseInt10 (the q)))\<rparr>" for q
    by (simp add: related_parseRequest_def deepEvent_def)
  have at: "\<exists>resp n'. related_handler relatedWorld (deepEvent q) 0
        = (Inr \<lparr>statusCode = 200, headers = relatedHeaders, body = Payload resp\<rparr>, n')
      \<and> expandsTo (effectiveDepth (if falsy q then None else Some (parseInt10 (the q))))
          sevenLevels (rcr_item resp)" for q
    using depth_is_clamped [OF fc,
        of "if falsy q then None else Some (parseInt10 (the q))" _ _
           "\<lparr>rc_section = ''ai'', rc_period = ''daily'', itemId = ''l1'', depth = None\<rparr>" 0]
    by (simp only: related_handler_def rq target RelatedContentRequest.simps)
  have s5: "spine out = [''l1'', ''l2'', ''l3'', ''l4'', ''l5'']"
    if "expandsTo 5 sevenLevels out" for out
    using that
    by (auto simp: sevenLevels_def bareItem_def eval_nat_numeral list_all2_Cons1 spine_sel
        split: option.splits)
  have s1: "spine out = [''l1'']" if "expandsTo 1 sevenLevels out" for out
    using that
    by (auto simp: sevenLevels_def bareItem_def eval_nat_numeral list_all2_Cons1 spine_sel
        split: option.splits)
  have s3: "spine out = [''l1'', ''l2'', ''l3'']" if "expandsTo 3 sevenLevels out" for out
    using that
    by (auto simp: sevenLevels_def bareItem_def eval_nat_numeral list_all2_Cons1 spine_sel
        split: option.splits)
  have deep: "\<exists>resp n'. related_handler relatedWorld (deepEvent (Some ''100'')) 0
        = (Inr \<lparr>statusCode = 200, headers = relatedHeaders, body = Payload resp\<rparr>, n')
      \<and> spine (rcr_item resp) = [''l1'', ''l2'', ''l3'', ''l4'', ''l5'']"
    using at [of "Some ''100''"] s5 by (auto simp: parseInt10_samples)
  have flat: "\<exists>resp n'. related_handler relatedWorld (deepEvent (Some ''0'')) 0
        = (Inr \<lparr>statusCode = 200, headers = relatedHeaders, body = Payload resp\<rparr>, n')
      \<and> spine (rcr_item resp) = [''l1'']"
    using at [of "Some ''0''"] s1 by (auto simp: parseInt10_samples)
  have default: "\<exists>resp n'. related_handler relatedWorld (deepEvent None) 0
        = (Inr \<lparr>statusCode = 200, headers = relatedHeaders, body = Payload resp\<rparr>, n')
      \<and> spine (rcr_item resp) = [''l1'', ''l2'', ''l3'']"
    using at [of None] s3 by auto
  have same: "related_handler relatedWorld (deepEvent (Some ''100'')) 0
     = related_handler relatedWorld (deepEvent (Some ''5'')) 0
   \<and> related_handler relatedWorld (deepEvent (Some ''0'')) 0
     = related_handler relatedWorld (deepEvent (Some ''1'')) 0"
    using depth_is_clamped [OF fc, where ev = "deepEvent None" and n = 0]
    by (simp add: deepEvent_def)
  from deep flat default same show ?thesis
    by simp
qed

subsection \<open>C6: an unparseable payload\<close>

text \<open>
  C6 says that the handler recovers from an unparseable payload by substituting the
  defaults and answers successfully. \<^verbatim>\<open>parseRequest\<close> calls \<^verbatim>\<open>JSON.parse\<close> without a
  guard: on an API event whose body does not parse it throws, and the \<^verbatim>\<open>catch\<close> of
  \<^verbatim>\<open>handleApiGateway\<close> answers 500 with nothing aggregated and nothing written. The
  same event without a body is given section \<^verbatim>\<open>ai\<close> and period \<^verbatim>\<open>daily\<close> and answered
  with 200.
\<close>

theorem unparseable_body_answers_500:
  "parseRequest (ApiGatewayEvent Unparseable None None) = Inl SyntaxError
   \<and> handleApiGateway quietWorld (ApiGatewayEvent Unparseable None None) initState
     = (\<lparr>statusCode = 500, headers = jsonHeaders,
         body = Message ''Failed to aggregate news content''\<rparr>, initState)
   \<and> parseRequest (ApiGatewayEvent NoBody None None) = Inr aiDaily
   \<and> statusCode
       (fst (handleApiGateway quietWorld (ApiGatewayEvent NoBody None None) initState))
     = 200"
proof -
  have qsec: "resolveSecrets quietWorld initState
      = (Inr noSecrets, initState\<lparr>cachedSecrets := Some noSecrets\<rparr>)"
    by (simp add: resolveSecrets_def quietWorld_def initState_def)
  have none: "cascade quietWorld noSecrets (newsQuery rq) = None" for rq
    by (rule cascade_unavailable) (simp_all only: noSecrets_keys no_key_unavailable)
  have "statusCode
       (fst (handleApiGateway quietWorld (ApiGatewayEvent NoBody None None) initState))
     = 200"
    using quiet_write_ok
    by (simp add: handleApiGateway_def aggregateContent_def qsec none split_beta Let_def
        placeholder_marshallable)
  then show ?thesis
    by (simp add: handleApiGateway_def aiDaily_def)
qed

subsection \<open>C7: a failing provider call\<close>

text \<open>
  C7 says that a provider failure is always recovered and never reaches the caller as an
  error response. In \<^verbatim>\<open>generatePatentSummaries\<close> the ChatGPT call stands outside any
  \<^verbatim>\<open>try\<close>: with only the ChatGPT key configured and the ChatGPT call failing, the patent
  handler answers 500, where the news handler, in the same surroundings, answers 200.
\<close>

theorem chatgpt_failure_surfaces_in_patents:
  "fst (handleApi chatGptDownWorld (ApiGatewayEvent NoBody None None) initState)
     = \<lparr>statusCode = 500, headers = jsonHeaders,
        body = Message ''Unable to aggregate patent insights''\<rparr>
   \<and> statusCode
       (fst (handleApiGateway chatGptDownWorld (ApiGatewayEvent NoBody None None) initState))
     = 200"
proof -
  have sec: "resolveSecrets chatGptDownWorld initState
      = (Inr chatGptOnly, initState\<lparr>cachedSecrets := Some chatGptOnly\<rparr>)"
    by (simp add: resolveSecrets_def chatGptDownWorld_def quietWorld_def initState_def)
  have post: "postChatGpt chatGptDownWorld q k = HttpFailure" for q k
    by (simp add: chatGptDownWorld_def quietWorld_def)
  have ok: "cacheWriteOk chatGptDownWorld"
    by (simp add: chatGptDownWorld_def quietWorld_def)
  have keys: "perplexityApiKey chatGptOnly = None" "geminiApiKey chatGptOnly = None"
    "chatGptApiKey chatGptOnly = Some ''ck''"
    by (simp_all add: chatGptOnly_def)
  have patents: "fst (handleApi chatGptDownWorld (ApiGatewayEvent NoBody None None) initState)
     = \<lparr>statusCode = 500, headers = jsonHeaders,
        body = Message ''Unable to aggregate patent insights''\<rparr>"
    by (simp add: handleApi_def patentPipeline_def generatePatentSummaries_def sec
        perplexityPatents_def chatGptPatents_def keys post)
  have news: "statusCode
       (fst (handleApiGateway chatGptDownWorld (ApiGatewayEvent NoBody None None) initState))
     = 200"
    using ok
    by (simp add: handleApiGateway_def aggregateContent_def sec cascade_def callPerplexity_def
        callGemini_def callChatGpt_def keys post split_beta Let_def placeholder_marshallable)
  from patents news show ?thesis by simp
qed

subsection \<open>C8: a refresh trigger without connections\<close>

text \<open>
  C8 says that a trigger without \<^verbatim>\<open>connections\<close> makes the notifier list the registered
  connections and push to each. With everything configured and two connections
  registered, the handler of \<^verbatim>\<open>infrastructure/lambda/dailyRefresh.ts\<close> (lines 18 to 60)
  starts the execution and pushes to nobody; the second copy of the handler (lines 96 to
  142) lists both connections and pushes to both.
\<close>

theorem refresh_without_connections:
  "dailyRefresh_handler liveWorld (Some noDetail)
     = (Inr (202, ''Refresh started''), [StartExecution defaultSections defaultPeriods])
   \<and> listActiveConnections liveWorld = Inr [''c1'', ''c2'']
   \<and> dailyRefresh_handler2 liveWorld (Some noDetail)
     = (Inr (202, ''Refresh started''),
        [StartExecution defaultSections defaultPeriods,
         PostToConnection ''c1'' defaultSections defaultPeriods,
         PostToConnection ''c2'' defaultSections defaultPeriods])"
  by (simp add: dailyRefresh_handler_def dailyRefresh_handler2_def listActiveConnections_def
      liveWorld_def noDetail_def)

subsection \<open>C9: the defaults of a patent request\<close>

text \<open>
  C9 as stated gives a patent request without \<^verbatim>\<open>timePeriod\<close> the period \<^verbatim>\<open>daily\<close>.
  \<^verbatim>\<open>normalizeRequest\<close> on a direct invocation without fields yields \<^verbatim>\<open>monthly\<close>.
\<close>

theorem patent_period_default_counterexample:
  "omitsTimePeriod (DirectEvent None None None)
   \<and> normalizeRequest (DirectEvent None None None)
     = Inr \<lparr>rq_section = ''ai'', timePeriod = ''monthly'', mode = None\<rparr>
   \<and> normalizeRequest (DirectEvent None None None)
     \<noteq> Inr \<lparr>rq_section = ''ai'', timePeriod = ''daily'', mode = None\<rparr>"
  by simp

text \<open>
  C9, amended: a patent request that omits \<^verbatim>\<open>section\<close> is normalised with section
  \<^verbatim>\<open>ai\<close>, as a news request is; one that omits \<^verbatim>\<open>timePeriod\<close> is normalised with
  period \<^verbatim>\<open>monthly\<close>, where the news request gets \<^verbatim>\<open>daily\<close>.
\<close>

theorem patent_defaults:
  "(omitsSection ev \<longrightarrow> (\<exists>rq. normalizeRequest ev = Inr rq \<and> rq_section rq = ''ai''))
   \<and> (omitsSection ev \<longrightarrow> (\<exists>rq. parseRequest ev = Inr rq \<and> rq_section rq = ''ai''))
   \<and> (omitsTimePeriod ev \<longrightarrow>
        (\<exists>rq. normalizeRequest ev = Inr rq \<and> timePeriod rq = ''monthly''))
   \<and> (omitsTimePeriod ev \<longrightarrow> (\<exists>rq. parseRequest ev = Inr rq \<and> timePeriod rq = ''daily''))"
  by (cases ev rule: omitsSection.cases) auto

text \<open>The amended C9 at a direct invocation that carries no field.\<close>

theorem patent_defaults_witness:
  "omitsSection (DirectEvent None None None) \<and> omitsTimePeriod (DirectEvent None None None)
   \<and> (\<exists>rq. normalizeRequest (DirectEvent None None None) = Inr rq \<and> rq_section rq = ''ai'')
   \<and> (\<exists>rq. normalizeRequest (DirectEvent None None None) = Inr rq
          \<and> timePeriod rq = ''monthly'')
   \<and> (\<exists>rq. parseRequest (DirectEvent None None None) = Inr rq \<and> timePeriod rq = ''daily'')"
  using patent_defaults [of "DirectEvent None None None"] by simp

subsection \<open>C10: the fan-out of the expanded tree\<close>

text \<open>
  C10: for every cached item, every depth and every identifier count, each node of the
  tree that \<^verbatim>\<open>expandRelated\<close> returns carries at most three related children, however
  many the stored item has; so does the item of every response of the handler.
\<close>

theorem at_most_three_children:
  "childrenAtMost 3 (fst (expandRelated w it d n))
   \<and> (case fst (relatedContent w request n) of
        Inl e \<Rightarrow> True
      | Inr result \<Rightarrow>
          (case body result of
             Payload response \<Rightarrow> childrenAtMost 3 (rcr_item response)
           | Message m \<Rightarrow> False))"
proof -
  have "case fst (relatedContent w request n) of
        Inl e \<Rightarrow> True
      | Inr result \<Rightarrow>
          (case body result of
             Payload response \<Rightarrow> childrenAtMost 3 (rcr_item response)
           | Message m \<Rightarrow> False)"
    by (cases "fetchCached w")
      (simp_all add: relatedContent_def split_beta Let_def expand_bounded)
  then show ?thesis
    by (simp add: expand_bounded)
qed

text \<open>C10 at a stored item with five related children: three are returned.\<close>

theorem at_most_three_children_witness:
  "childrenAtMost 3 (fst (expandRelated relatedWorld fiveChildren (Num 5) 0))
   \<and> map_option (map ri_id) (ri_related (fst (expandRelated relatedWorld fiveChildren (Num 5) 0)))
     = Some [''a'', ''b'', ''c'']"
  using at_most_three_children [of relatedWorld fiveChildren "Num 5" 0]
  by (simp add: fiveChildren_def bareItem_def split_beta del: childrenAtMost.simps)
end
